theory Spec2Isabelle
  imports Complex_Main "HOL-Library.Word"
begin

section \<open>JavaScript strings\<close>

text \<open>
  A JavaScript string is a sequence of UTF-16 code units; \<open>length\<close>, \<open>substring\<close>,
  \<open>lastIndexOf\<close> and the regular expressions of the studio (which are built without the
  \<open>u\<close> flag) all count code units. A literal of the source is written \<open>str ''...''\<close>.
\<close>

type_synonym jschar = "16 word"
type_synonym jsstring = "jschar list"

definition str :: "string \<Rightarrow> jsstring" where
  "str s = map of_char s"

text \<open>ECMAScript \<open>WhiteSpace\<close>: TAB, VT, FF, ZWNBSP and the space separators (category Zs).\<close>

definition isWhiteSpace :: "jschar \<Rightarrow> bool" where
  "isWhiteSpace c \<longleftrightarrow>
     c = 0x09 \<or> c = 0x0B \<or> c = 0x0C \<or> c = 0xFEFF \<or> c = 0x20 \<or> c = 0xA0 \<or> c = 0x1680 \<or>
     (0x2000 \<le> c \<and> c \<le> 0x200A) \<or> c = 0x202F \<or> c = 0x205F \<or> c = 0x3000"

text \<open>ECMAScript \<open>LineTerminator\<close>: LF, CR, LS, PS.\<close>

definition isLineTerminator :: "jschar \<Rightarrow> bool" where
  "isLineTerminator c \<longleftrightarrow> c = 0x0A \<or> c = 0x0D \<or> c = 0x2028 \<or> c = 0x2029"

text \<open>What \<open>String.prototype.trim\<close> strips: white space and line terminators.\<close>

definition isStrWhiteSpaceChar :: "jschar \<Rightarrow> bool" where
  "isStrWhiteSpaceChar c \<longleftrightarrow> isWhiteSpace c \<or> isLineTerminator c"

definition trim :: "jsstring \<Rightarrow> jsstring" where
  "trim s = rev (dropWhile isStrWhiteSpaceChar (rev (dropWhile isStrWhiteSpaceChar s)))"

text \<open>
  \<open>s.lastIndexOf(c, position)\<close> for a search string of one code unit: the largest index
  \<open>k \<le> min position (length s)\<close> with \<open>s[k] = c\<close>, or \<open>-1\<close>.
\<close>

fun lastIndexFrom :: "jsstring \<Rightarrow> jschar \<Rightarrow> nat \<Rightarrow> int" where
  "lastIndexFrom s c 0 = (if 0 < length s \<and> s ! 0 = c then 0 else - 1)"
| "lastIndexFrom s c (Suc k) =
     (if Suc k < length s \<and> s ! Suc k = c then int (Suc k) else lastIndexFrom s c k)"

definition lastIndexOf :: "jsstring \<Rightarrow> jschar \<Rightarrow> nat \<Rightarrow> int" where
  "lastIndexOf s c position = lastIndexFrom s c (min position (length s))"

text \<open>\<open>s.substring(start, end)\<close>: both arguments are clamped to the length and swapped if needed.\<close>

definition substring :: "jsstring \<Rightarrow> nat \<Rightarrow> nat \<Rightarrow> jsstring" where
  "substring s start end =
     (let finalStart = min start (length s); finalEnd = min end (length s);
          from = min finalStart finalEnd; to = max finalStart finalEnd
      in take (to - from) (drop from s))"

section \<open>TextChunker: \<open>splitTextIntoChunks\<close>\<close>

text \<open>
  The \<open>while\<close> loop of \<open>splitTextIntoChunks\<close>, with its two variables \<open>currentPos\<close> and
  \<open>chunks\<close>. The loop is not guarded against \<open>maxChars = 0\<close>, where it never advances, so the
  model is a partial function: \<open>None\<close> stands for a run that does not return. \<open>maxChars\<close> is
  a character count (a natural number); \<open>0x20\<close> is the space and \<open>0x0A\<close> the newline.
\<close>

partial_function (option) splitLoop ::
  "jsstring \<Rightarrow> nat \<Rightarrow> nat \<Rightarrow> jsstring list \<Rightarrow> jsstring list option" where
  "splitLoop text maxChars currentPos chunks =
     (if currentPos < length text then
        (let endPos = currentPos + maxChars;
             endPos = (if endPos > length text then length text else endPos);
             endPos = (if endPos < length text then
                         (let lastSpace = lastIndexOf text 0x20 endPos;
                              lastNewline = lastIndexOf text 0x0A endPos;
                              breakPoint = max lastSpace lastNewline
                          in if breakPoint > int currentPos then nat breakPoint else endPos)
                       else endPos)
         in splitLoop text maxChars endPos (chunks @ [trim (substring text currentPos endPos)]))
      else Some chunks)"

declare splitLoop.simps [code]

definition splitTextIntoChunks :: "jsstring \<Rightarrow> nat \<Rightarrow> jsstring list option" where
  "splitTextIntoChunks text maxChars =
     (if length text \<le> maxChars then Some [text]
      else map_option (filter (\<lambda>c. length c > 0)) (splitLoop text maxChars 0 []))"

subsection \<open>Facts about the string primitives\<close>

lemma lastIndexFrom_le: "lastIndexFrom s c k \<le> int k"
  by (induction k) auto

lemma lastIndexOf_le: "lastIndexOf s c position \<le> int position"
  unfolding lastIndexOf_def using lastIndexFrom_le [of s c "min position (length s)"] by simp

lemma filter_dropWhile_not:
  "filter (\<lambda>c. \<not> P c) (dropWhile P xs) = filter (\<lambda>c. \<not> P c) xs"
  by (induction xs) auto

lemma filter_trim:
  "filter (\<lambda>c. \<not> isStrWhiteSpaceChar c) (trim s) = filter (\<lambda>c. \<not> isStrWhiteSpaceChar c) s"
  by (simp add: trim_def filter_dropWhile_not rev_filter [symmetric])

lemma length_trim: "length (trim s) \<le> length s"
proof -
  have "length (trim s) \<le> length (dropWhile isStrWhiteSpaceChar s)"
    unfolding trim_def
    using length_dropWhile_le [of isStrWhiteSpaceChar "rev (dropWhile isStrWhiteSpaceChar s)"]
    by simp
  also have "\<dots> \<le> length s" by (rule length_dropWhile_le)
  finally show ?thesis .
qed

lemma dropWhile_noop: "xs = [] \<or> \<not> P (hd xs) \<Longrightarrow> dropWhile P xs = xs"
  by (cases xs) auto

lemma hd_strip_right:
  assumes "t = [] \<or> \<not> P (hd t)"
  shows "rev (dropWhile P (rev t)) = [] \<or> \<not> P (hd (rev (dropWhile P (rev t))))"
proof -
  let ?u = "rev (dropWhile P (rev t))"
  have "rev (rev t) = rev (takeWhile P (rev t) @ dropWhile P (rev t))" by simp
  then have split: "t = ?u @ rev (takeWhile P (rev t))"
    unfolding rev_append rev_rev_ident .
  show ?thesis
  proof (cases "?u = []")
    case True
    then show ?thesis by simp
  next
    case False
    then have "hd t = hd ?u" using split by (metis hd_append2)
    moreover have "t \<noteq> []" using False by auto
    ultimately show ?thesis using assms by simp
  qed
qed

text \<open>Trimming a trimmed string changes nothing: it has no white space left at either end.\<close>

lemma trim_idem: "trim (trim s) = trim s"
proof -
  let ?t = "dropWhile isStrWhiteSpaceChar s"
  let ?u = "rev (dropWhile isStrWhiteSpaceChar (rev ?t))"
  have t: "?t = [] \<or> \<not> isStrWhiteSpaceChar (hd ?t)"
    using hd_dropWhile [of isStrWhiteSpaceChar s] by blast
  have "?u = [] \<or> \<not> isStrWhiteSpaceChar (hd ?u)"
    using t hd_strip_right [of ?t isStrWhiteSpaceChar] by blast
  then have "dropWhile isStrWhiteSpaceChar ?u = ?u" by (rule dropWhile_noop)
  then have "trim ?u = rev (dropWhile isStrWhiteSpaceChar (rev ?u))" by (simp add: trim_def)
  also have "\<dots> = ?u" by (simp add: dropWhile_idem)
  finally show ?thesis by (simp add: trim_def)
qed

lemma substring_take_drop:
  "a \<le> b \<Longrightarrow> b \<le> length s \<Longrightarrow> substring s a b = take (b - a) (drop a s)"
  by (simp add: substring_def Let_def min_def max_def)

subsection \<open>The loop returns, and what it returns\<close>

text \<open>
  With \<open>maxChars \<ge> 1\<close> every iteration moves \<open>currentPos\<close> forward by at least one and at most
  \<open>maxChars\<close> code units, so the loop returns. It appends pieces that are trimmed, no longer
  than \<open>maxChars\<close>, and that together hold the non-white-space code units of the rest of the
  text, in order.
\<close>

lemma splitLoop_returns:
  assumes "1 \<le> maxChars"
  shows "\<exists>ys. splitLoop text maxChars pos chunks = Some (chunks @ ys) \<and>
              (\<forall>c\<in>set ys. length c \<le> maxChars \<and> trim c = c) \<and>
              filter (\<lambda>c. \<not> isStrWhiteSpaceChar c) (concat ys)
                = filter (\<lambda>c. \<not> isStrWhiteSpaceChar c) (drop pos text)"
proof (induction "length text - pos" arbitrary: pos chunks rule: less_induct)
  case less
  show ?case
  proof (cases "pos < length text")
    case False
    then show ?thesis by (subst splitLoop.simps) simp
  next
    case True
    define e0 where "e0 = (if pos + maxChars > length text then length text else pos + maxChars)"
    define bp where "bp = max (lastIndexOf text 0x20 e0) (lastIndexOf text 0x0A e0)"
    define e where "e = (if e0 < length text then (if bp > int pos then nat bp else e0) else e0)"
    have e0: "pos < e0" "e0 \<le> length text" "e0 \<le> pos + maxChars"
      using True assms by (auto simp: e0_def)
    have "bp \<le> int e0"
      unfolding bp_def using lastIndexOf_le [of "text" _ e0] by simp
    then have e: "pos < e" "e \<le> length text" "e \<le> pos + maxChars"
      using e0 by (auto simp: e_def)
    let ?piece = "trim (substring text pos e)"
    have step: "splitLoop text maxChars pos chunks = splitLoop text maxChars e (chunks @ [?piece])"
      using True by (subst splitLoop.simps) (simp add: Let_def e_def bp_def e0_def)
    have "length text - e < length text - pos" using e by arith
    from less [OF this, of "chunks @ [?piece]"] obtain ys where
      ys: "splitLoop text maxChars e ((chunks @ [?piece])) = Some ((chunks @ [?piece]) @ ys)"
          "\<forall>c\<in>set ys. length c \<le> maxChars \<and> trim c = c"
          "filter (\<lambda>c. \<not> isStrWhiteSpaceChar c) (concat ys)
             = filter (\<lambda>c. \<not> isStrWhiteSpaceChar c) (drop e text)"
      by blast
    have sub: "substring text pos e = take (e - pos) (drop pos text)"
      using e by (simp add: substring_take_drop)
    have len: "length ?piece \<le> maxChars"
      using length_trim [of "substring text pos e"] e by (simp add: sub)
    have "drop pos text = take (e - pos) (drop pos text) @ drop (e - pos) (drop pos text)"
      by (rule append_take_drop_id [symmetric])
    also have "drop (e - pos) (drop pos text) = drop e text" using e by simp
    finally have "drop pos text = substring text pos e @ drop e text" by (simp add: sub)
    then have "filter (\<lambda>c. \<not> isStrWhiteSpaceChar c) (drop pos text)
        = filter (\<lambda>c. \<not> isStrWhiteSpaceChar c) (concat (?piece # ys))"
      using ys(3) by (simp add: filter_trim)
    then show ?thesis using step ys(1,2) len trim_idem [of "substring text pos e"]
      by (intro exI [of _ "?piece # ys"]) simp
  qed
qed

lemma concat_filter_nonempty: "concat (filter (\<lambda>c. c \<noteq> []) ys) = concat ys"
  by (induction ys) auto

lemmas chunker_eval =
  splitTextIntoChunks_def splitLoop.simps lastIndexOf_def substring_def trim_def str_def
  isStrWhiteSpaceChar_def isWhiteSpace_def isLineTerminator_def Let_def

text \<open>
  C1. For a text longer than \<open>maxChars\<close>, with \<open>maxChars \<ge> 1\<close>, \<open>splitTextIntoChunks\<close> returns,
  and every chunk it returns is at most \<open>maxChars\<close> code units long, is not empty, and is not
  empty after trimming.
\<close>

theorem splitTextIntoChunks_bounded_nonempty:
  assumes "1 \<le> maxChars" and "maxChars < length text"
  shows "\<exists>chunks. splitTextIntoChunks text maxChars = Some chunks \<and>
           (\<forall>c\<in>set chunks. length c \<le> maxChars \<and> c \<noteq> [] \<and> trim c \<noteq> [])"
proof -
  from splitLoop_returns [OF assms(1), of "text" 0 "[]"] obtain ys where
    ys: "splitLoop text maxChars 0 [] = Some ys"
        "\<forall>c\<in>set ys. length c \<le> maxChars \<and> trim c = c"
    by auto
  have res: "splitTextIntoChunks text maxChars = Some (filter (\<lambda>c. length c > 0) ys)"
    using assms(2) ys(1) by (simp add: splitTextIntoChunks_def)
  have "\<forall>c\<in>set (filter (\<lambda>c. length c > 0) ys). length c \<le> maxChars \<and> c \<noteq> [] \<and> trim c \<noteq> []"
    using ys(2) by auto
  with res show ?thesis by blast
qed

theorem splitTextIntoChunks_bounded_nonempty_witness:
  "1 \<le> (6::nat) \<and> 6 < length (str ''hello world  foo'') \<and>
   splitTextIntoChunks (str ''hello world  foo'') 6 = Some [str ''hello'', str ''world'', str ''foo''] \<and>
   length (str ''hello'') \<le> 6 \<and> trim (str ''hello'') \<noteq> []"
  using splitTextIntoChunks_bounded_nonempty [of 6 "str ''hello world  foo''"]
  by (simp add: chunker_eval)

text \<open>
  C2. For every text and every \<open>maxChars \<ge> 1\<close>, \<open>splitTextIntoChunks\<close> returns, and the
  chunks concatenated in order hold exactly the non-white-space code units of the text, in
  the same order: only white space (at the ends of the pieces) is dropped.
\<close>

theorem splitTextIntoChunks_preserves_content:
  assumes "1 \<le> maxChars"
  shows "\<exists>chunks. splitTextIntoChunks text maxChars = Some chunks \<and>
           filter (\<lambda>c. \<not> isStrWhiteSpaceChar c) (concat chunks)
             = filter (\<lambda>c. \<not> isStrWhiteSpaceChar c) text"
proof (cases "length text \<le> maxChars")
  case True
  then show ?thesis by (simp add: splitTextIntoChunks_def)
next
  case False
  from splitLoop_returns [OF assms, of "text" 0 "[]"] obtain ys where
    ys: "splitLoop text maxChars 0 [] = Some ys"
        "filter (\<lambda>c. \<not> isStrWhiteSpaceChar c) (concat ys)
           = filter (\<lambda>c. \<not> isStrWhiteSpaceChar c) text"
    by auto
  have "splitTextIntoChunks text maxChars = Some (filter (\<lambda>c. length c > 0) ys)"
    using False ys(1) by (simp add: splitTextIntoChunks_def)
  then show ?thesis using ys(2) by (simp add: concat_filter_nonempty)
qed

theorem splitTextIntoChunks_preserves_content_witness:
  "1 \<le> (6::nat) \<and>
   splitTextIntoChunks (str ''helloworldfoo bar'') 6 = Some [str ''hellow'', str ''orldfo'', str ''o bar''] \<and>
   filter (\<lambda>c. \<not> isStrWhiteSpaceChar c) (concat [str ''hellow'', str ''orldfo'', str ''o bar''])
     = filter (\<lambda>c. \<not> isStrWhiteSpaceChar c) (str ''helloworldfoo bar'')"
  using splitTextIntoChunks_preserves_content [of 6 "str ''helloworldfoo bar''"]
  by (simp add: chunker_eval)

section \<open>Errors, completions and regular expressions\<close>

text \<open>
  A thrown value is told by its constructor. The message of an \<open>Error\<close> is its argument;
  the messages of a \<open>SyntaxError\<close> and a \<open>TypeError\<close> are the engine's and are not
  modelled.
\<close>

datatype js_error = SyntaxError | TypeError | Error jsstring

text \<open>
  The result of evaluating an expression: a value, or a thrown error. \<open>Unsupported\<close> is
  the model's own third answer: the input uses regular-expression syntax that the fragment
  below does not cover, and the model says nothing about what the code does there.
\<close>

datatype 'a completion = Normal 'a | Throw js_error | Unsupported

text \<open>
  The fragment of ECMAScript pattern syntax (flags \<open>gi\<close>, no \<open>u\<close> flag, with the
  web-compatibility grammar of Annex B) that is covered: a pattern is a sequence of terms,
  each a character, the wildcard \<open>.\<close>, or one of the assertions \<open>\b\<close>, \<open>\B\<close>,
  \<open>^\<close>, \<open>$\<close>. Every term consumes one code unit or none, so a match needs no
  backtracking.
\<close>

datatype node = Char jschar | Dot | WordBoundary | NotWordBoundary | InputStart | InputEnd

datatype preceding = NothingToRepeat | AnAtom | AQuantifier | ALazyQuantifier

definition isAsciiLetterOrDigit :: "jschar \<Rightarrow> bool" where
  "isAsciiLetterOrDigit c \<longleftrightarrow>
     (0x41 \<le> c \<and> c \<le> 0x5A) \<or> (0x61 \<le> c \<and> c \<le> 0x7A) \<or> (0x30 \<le> c \<and> c \<le> 0x39)"

text \<open>The \<open>WordCharacters\<close> of \<open>\b\<close> without the \<open>u\<close> flag: letters, digits, underscore.\<close>

definition isWordCharacter :: "jschar \<Rightarrow> bool" where
  "isWordCharacter c \<longleftrightarrow> isAsciiLetterOrDigit c \<or> c = 0x5F"

definition consNode :: "node \<Rightarrow> node list completion \<Rightarrow> node list completion" where
  "consNode n r = (case r of Normal ns \<Rightarrow> Normal (n # ns) | Throw e \<Rightarrow> Throw e | Unsupported \<Rightarrow> Unsupported)"

text \<open>
  The parser, one code unit at a time (\<open>0x5C\<close> is the backslash). \<open>prev\<close> is what a
  quantifier would apply to; \<open>ok\<close> is false once a quantifier has been seen, since
  repetition is outside the fragment, but the scan goes on, because what follows can still
  be a syntax error.
  \<^item> \<open>\b\<close> and \<open>\B\<close> are assertions; a backslash before any code unit that is not an
    ASCII letter or digit is an identity escape; a backslash at the end is a syntax error;
    the other escapes are not covered.
  \<^item> \<open>*\<close>, \<open>+\<close>, \<open>?\<close> with nothing to repeat (at the start, after an assertion,
    after a quantifier other than the \<open>?\<close> that makes it lazy) are a syntax error.
  \<^item> \<open>)\<close> with no group open is a syntax error; \<open>(\<close>, \<open>[\<close>, \<open>{\<close> and
    \<open>|\<close> are not covered; \<open>]\<close> and \<open>}\<close> are ordinary characters.
  \<^item> A pattern character outside ASCII is not covered: matching it without regard to
    case needs the Unicode case tables.
\<close>

fun parseTerms :: "preceding \<Rightarrow> bool \<Rightarrow> jsstring \<Rightarrow> node list completion" where
  "parseTerms prev ok [] = (if ok then Normal [] else Unsupported)"
| "parseTerms prev ok (c # cs) =
     (if c = 0x5C then
        (case cs of
           [] \<Rightarrow> Throw SyntaxError
         | d # ds \<Rightarrow>
             if d = 0x62 then consNode WordBoundary (parseTerms NothingToRepeat ok ds)
             else if d = 0x42 then consNode NotWordBoundary (parseTerms NothingToRepeat ok ds)
             else if isAsciiLetterOrDigit d \<or> d \<ge> 0x80 then Unsupported
             else consNode (Char d) (parseTerms AnAtom ok ds))
      else if c = 0x2E then consNode Dot (parseTerms AnAtom ok cs)
      else if c = 0x5E then consNode InputStart (parseTerms NothingToRepeat ok cs)
      else if c = 0x24 then consNode InputEnd (parseTerms NothingToRepeat ok cs)
      else if c = 0x2A \<or> c = 0x2B then
        (if prev = AnAtom then parseTerms AQuantifier False cs else Throw SyntaxError)
      else if c = 0x3F then
        (if prev = AnAtom then parseTerms AQuantifier False cs
         else if prev = AQuantifier then parseTerms ALazyQuantifier False cs
         else Throw SyntaxError)
      else if c = 0x29 then Throw SyntaxError
      else if c = 0x28 \<or> c = 0x5B \<or> c = 0x7B \<or> c = 0x7C \<or> c \<ge> 0x80 then Unsupported
      else consNode (Char c) (parseTerms AnAtom ok cs))"

text \<open>\<open>new RegExp(pattern, 'gi')\<close>.\<close>

definition RegExp_gi :: "jsstring \<Rightarrow> node list completion" where
  "RegExp_gi pattern = parseTerms NothingToRepeat True pattern"

text \<open>
  \<open>Canonicalize\<close> for a pattern with the \<open>i\<close> flag and no \<open>u\<close> flag: the upper case of
  the code unit. ECMAScript never maps a code unit outside ASCII into ASCII, so such a code
  unit never equals the canonical form of an ASCII pattern character; the model leaves it
  unchanged, which is all that matching against the ASCII characters of the fragment uses.
\<close>

definition Canonicalize :: "jschar \<Rightarrow> jschar" where
  "Canonicalize ch = (if 0x61 \<le> ch \<and> ch \<le> 0x7A then ch - 0x20 else ch)"

text \<open>\<open>IsWordChar(e)\<close>: false at \<open>-1\<close> and at the end of the input.\<close>

definition IsWordChar :: "jsstring \<Rightarrow> int \<Rightarrow> bool" where
  "IsWordChar s e = (if e = - 1 \<or> e = int (length s) then False else isWordCharacter (s ! nat e))"

text \<open>The matcher: the terms of \<open>R\<close> in order from index \<open>i\<close> of \<open>s\<close>; the end index on success.\<close>

fun matchNodes :: "jsstring \<Rightarrow> node list \<Rightarrow> nat \<Rightarrow> nat option" where
  "matchNodes s [] i = Some i"
| "matchNodes s (Char c # ns) i =
     (if i < length s \<and> Canonicalize (s ! i) = Canonicalize c then matchNodes s ns (i + 1) else None)"
| "matchNodes s (Dot # ns) i =
     (if i < length s \<and> \<not> isLineTerminator (s ! i) then matchNodes s ns (i + 1) else None)"
| "matchNodes s (WordBoundary # ns) i =
     (if IsWordChar s (int i - 1) \<noteq> IsWordChar s (int i) then matchNodes s ns i else None)"
| "matchNodes s (NotWordBoundary # ns) i =
     (if IsWordChar s (int i - 1) = IsWordChar s (int i) then matchNodes s ns i else None)"
| "matchNodes s (InputStart # ns) i = (if i = 0 then matchNodes s ns i else None)"
| "matchNodes s (InputEnd # ns) i = (if i = length s then matchNodes s ns i else None)"

lemma matchNodes_bounds: "matchNodes s ns i = Some e \<Longrightarrow> i \<le> length s \<Longrightarrow> i \<le> e \<and> e \<le> length s"
  by (induction s ns i rule: matchNodes.induct) (auto split: if_splits)

text \<open>
  \<open>RegExpBuiltinExec\<close> of a global pattern: the first index from \<open>lastIndex\<close> on at which
  the pattern matches, with the end of the match; \<open>None\<close> for \<open>null\<close>.
\<close>

function RegExpBuiltinExec :: "node list \<Rightarrow> jsstring \<Rightarrow> nat \<Rightarrow> (nat \<times> nat) option" where
  "RegExpBuiltinExec R S lastIndex =
     (if lastIndex > length S then None
      else case matchNodes S R lastIndex of
             None \<Rightarrow> RegExpBuiltinExec R S (lastIndex + 1)
           | Some e \<Rightarrow> Some (lastIndex, e))"
  by pat_completeness auto
termination
  by (relation "measure (\<lambda>(R, S, lastIndex). Suc (length S) - lastIndex)") auto

declare RegExpBuiltinExec.simps [simp del]

lemma RegExpBuiltinExec_bounds:
  "RegExpBuiltinExec R S lastIndex = Some (i, e) \<Longrightarrow> lastIndex \<le> i \<and> i \<le> e \<and> e \<le> length S"
proof (induction R S lastIndex rule: RegExpBuiltinExec.induct)
  case (1 R S lastIndex)
  show ?case
  proof (cases "matchNodes S R lastIndex")
    case None
    with 1 show ?thesis
      by (subst (asm) (2) RegExpBuiltinExec.simps) (auto split: if_splits)
  next
    case (Some e')
    with 1(2) matchNodes_bounds [of S R lastIndex e'] show ?thesis
      by (subst (asm) RegExpBuiltinExec.simps) (auto split: if_splits)
  qed
qed

text \<open>
  The first loop of \<open>RegExp.prototype[Symbol.replace]\<close>: all match results, with
  \<open>lastIndex\<close> moved one further after an empty match.
\<close>

function collectResults :: "node list \<Rightarrow> jsstring \<Rightarrow> nat \<Rightarrow> (nat \<times> nat) list" where
  "collectResults R S lastIndex =
     (case RegExpBuiltinExec R S lastIndex of
        None \<Rightarrow> []
      | Some (i, e) \<Rightarrow> (i, e) # collectResults R S (if e = i then e + 1 else e))"
  by pat_completeness auto
termination
proof (relation "measure (\<lambda>(R, S, lastIndex). Suc (length S) - lastIndex)", goal_cases)
  case 1
  show ?case by simp
next
  case (2 R S lastIndex x i e)
  then have "RegExpBuiltinExec R S lastIndex = Some (i, e)" by simp
  from RegExpBuiltinExec_bounds [OF this] show ?case by auto
qed

declare collectResults.simps [simp del]

text \<open>
  \<open>GetSubstitution\<close> for a pattern without capture groups (\<open>0x24\<close> is the dollar sign):
  \<open>$$\<close>, \<open>$`\<close>, \<open>$&\<close> and \<open>$'\<close> are replaced, every other code unit stands for
  itself.
\<close>

fun GetSubstitution :: "jsstring \<Rightarrow> jsstring \<Rightarrow> nat \<Rightarrow> jsstring \<Rightarrow> jsstring" where
  "GetSubstitution matched S position [] = []"
| "GetSubstitution matched S position [c] = [c]"
| "GetSubstitution matched S position (c # d # rest) =
     (if c = 0x24 \<and> d = 0x24 then 0x24 # GetSubstitution matched S position rest
      else if c = 0x24 \<and> d = 0x60 then take position S @ GetSubstitution matched S position rest
      else if c = 0x24 \<and> d = 0x26 then matched @ GetSubstitution matched S position rest
      else if c = 0x24 \<and> d = 0x27 then
        drop (min (position + length matched) (length S)) S @ GetSubstitution matched S position rest
      else c # GetSubstitution matched S position (d # rest))"

text \<open>The second loop: the result string, built from the match results in order.\<close>

fun buildResult :: "jsstring \<Rightarrow> jsstring \<Rightarrow> jsstring \<Rightarrow> nat \<Rightarrow> (nat \<times> nat) list \<Rightarrow> jsstring" where
  "buildResult S replaceValue accumulatedResult nextSourcePosition [] =
     (if nextSourcePosition \<ge> length S then accumulatedResult
      else accumulatedResult @ drop nextSourcePosition S)"
| "buildResult S replaceValue accumulatedResult nextSourcePosition ((position, e) # results) =
     (let matched = substring S position e;
          replacement = GetSubstitution matched S position replaceValue
      in if position \<ge> nextSourcePosition then
           buildResult S replaceValue
             (accumulatedResult @ substring S nextSourcePosition position @ replacement)
             (position + length matched) results
         else buildResult S replaceValue accumulatedResult nextSourcePosition results)"

text \<open>\<open>S.replace(R, replaceValue)\<close> for a global pattern \<open>R\<close> and a string \<open>replaceValue\<close>.\<close>

definition replace :: "jsstring \<Rightarrow> node list \<Rightarrow> jsstring \<Rightarrow> jsstring" where
  "replace S R replaceValue = buildResult S replaceValue [] 0 (collectResults R S 0)"

section \<open>PronunciationRewriter\<close>

record pronunciationRule =
  word :: jsstring
  "alias" :: jsstring

text \<open>
  One step of the \<open>forEach\<close>: the pattern is the rule's word between two \<open>\b\<close>,
  spliced in as it is.
\<close>

definition applyRule :: "jsstring \<Rightarrow> pronunciationRule \<Rightarrow> jsstring completion" where
  "applyRule ruleAppliedText r =
     (case RegExp_gi ([0x5C, 0x62] @ word r @ [0x5C, 0x62]) of
        Normal R \<Rightarrow> Normal (replace ruleAppliedText R (alias r))
      | Throw e \<Rightarrow> Throw e
      | Unsupported \<Rightarrow> Unsupported)"

fun applyRules :: "pronunciationRule list \<Rightarrow> jsstring \<Rightarrow> jsstring completion" where
  "applyRules [] ruleAppliedText = Normal ruleAppliedText"
| "applyRules (r # rules) ruleAppliedText =
     (case applyRule ruleAppliedText r of
        Normal ruleAppliedText' \<Rightarrow> applyRules rules ruleAppliedText'
      | Throw e \<Rightarrow> Throw e
      | Unsupported \<Rightarrow> Unsupported)"

lemmas rewriter_eval =
  applyRule_def RegExp_gi_def consNode_def replace_def collectResults.simps
  RegExpBuiltinExec.simps IsWordChar_def isWordCharacter_def isAsciiLetterOrDigit_def
  Canonicalize_def isLineTerminator_def substring_def str_def Let_def

section \<open>NarrationOrchestrator: \<open>generateNarration\<close>\<close>

subsection \<open>More of the string primitives\<close>

definition startsWith :: "jsstring \<Rightarrow> jsstring \<Rightarrow> bool" where
  "startsWith s searchString \<longleftrightarrow> take (length searchString) s = searchString"

definition endsWith :: "jsstring \<Rightarrow> jsstring \<Rightarrow> bool" where
  "endsWith s searchString \<longleftrightarrow>
     length searchString \<le> length s \<and> drop (length s - length searchString) s = searchString"

fun includesStr :: "jsstring \<Rightarrow> jsstring \<Rightarrow> bool" where
  "includesStr [] searchString = (searchString = [])"
| "includesStr (c # cs) searchString = (startsWith (c # cs) searchString \<or> includesStr cs searchString)"

text \<open>The decimal digits of a natural number, as a template literal prints \<open>${i + 1}\<close>.\<close>

function decimal :: "nat \<Rightarrow> jsstring" where
  "decimal n = (if n < 10 then [0x30 + of_nat n] else decimal (n div 10) @ [0x30 + of_nat (n mod 10)])"
  by pat_completeness auto
termination
  by (relation "measure id") auto

declare decimal.simps [simp del]

subsection \<open>Settings, the network and the component's state\<close>

type_synonym bytes = "8 word list"

datatype provider = Gemini25Tts | Gemini3Pro | Gemini3Flash | Gemini25Flash | ElevenLabs | Resemble

text \<open>A custom voice profile (the fields \<open>id\<close> and \<open>name\<close> are \<open>voiceId\<close> and \<open>voiceLabel\<close>).\<close>

record customVoice =
  voiceId :: jsstring
  voiceLabel :: jsstring
  instruction :: jsstring
  baseVoice :: jsstring

text \<open>The table \<open>narrationPrebuiltVoices\<close>, read at its \<open>voiceName\<close>.\<close>

definition narrationPrebuiltVoices :: "jsstring \<Rightarrow> jsstring option" where
  "narrationPrebuiltVoices key =
     (if key = str ''Charon (Deep Male)'' then Some (str ''Charon'')
      else if key = str ''Zephyr (Warm Female)'' then Some (str ''Zephyr'')
      else if key = str ''Hyperion (Authoritative Male)'' then Some (str ''Charon'')
      else if key = str ''Puck (Friendly Male)'' then Some (str ''Puck'')
      else if key = str ''Sadachbia (Warm Male)'' then Some (str ''Puck'')
      else if key = str ''Fenrir (Serious Male)'' then Some (str ''Fenrir'')
      else if key = str ''Kore (Clear Female)'' then Some (str ''Kore'')
      else if key = str ''Aura (Calm Female)'' then Some (str ''Kore'')
      else None)"

text \<open>The state variables that \<open>generateNarration\<close> reads.\<close>

record settings =
  narrationText :: jsstring
  pronunciationRules :: "pronunciationRule list"
  narrationLanguage :: jsstring
  narrationProvider :: provider
  customVoices :: "customVoice list"
  selectedVoiceKey :: jsstring

text \<open>What an \<open>await\<close> gives: a rejection, with the message of its error, or a value.\<close>

datatype 'a awaited = Rejected jsstring | Resolved 'a

text \<open>
  A \<open>fetch\<close> response, as far as the code reads it: \<open>res.ok\<close>, \<open>res.arrayBuffer()\<close> and
  \<open>(await res.json()).item.link\<close>.
\<close>

record httpResponse =
  ok :: bool
  arrayBuffer :: "bytes awaited"
  jsonItemLink :: "jsstring awaited"

text \<open>
  A part of a Gemini response is read at \<open>part.inlineData?.data\<close>, and the response at
  \<open>res.candidates?.[0]?.content?.parts\<close>; \<open>None\<close> stands for \<open>undefined\<close>.
\<close>

type_synonym part = "jsstring option"

text \<open>
  The services a run calls, as functions of the request: \<open>translateContent\<close> from the
  prompt to \<open>transResponse.text\<close>; the three providers from the index of the chunk and
  the text sent (for Gemini also the model and the voice name), so that the network can
  answer each call differently. URLs, keys and voice identifiers do not change during a run
  and are left to the functions. \<open>decode\<close> is the base64 decoder of \<open>utils/audio\<close>, which
  is not among the sources: it is a parameter, a total function as the specification has it.
\<close>

record network =
  translateContent :: "jsstring \<Rightarrow> jsstring option awaited"
  elevenlabsSpeech :: "nat \<Rightarrow> jsstring \<Rightarrow> httpResponse awaited"
  resembleClips :: "nat \<Rightarrow> jsstring \<Rightarrow> httpResponse awaited"
  resembleAudio :: "nat \<Rightarrow> jsstring \<Rightarrow> httpResponse awaited"
  geminiContent :: "nat \<Rightarrow> jsstring \<Rightarrow> jsstring \<Rightarrow> jsstring \<Rightarrow> part list option awaited"
  decode :: "jsstring \<Rightarrow> bytes"

text \<open>
  Modelled from the spec: \<open>concatenateBuffers\<close> of \<open>utils/audio\<close> is not among the sources;
  the specification gives it as the concatenation of the buffers in order, byte for byte.
\<close>

definition concatenateBuffers :: "bytes list \<Rightarrow> bytes" where
  "concatenateBuffers buffers = concat buffers"

text \<open>
  The blob behind the audio URL: the provider's MPEG bytes, or the WAV container that
  \<open>pcmToWavBlob\<close> (also of \<open>utils/audio\<close>) makes of the PCM bytes, the sample rate and the
  channel count; its header is not modelled.
\<close>

datatype blob = Mpeg bytes | Wav bytes nat nat

text \<open>
  The state variables that \<open>generateNarration\<close> writes, and two logs of the run: the
  prompts sent to the translation, and the chunks handed to the provider code with their
  index (\<open>i\<close> and \<open>chunkToSynthesize\<close> of each iteration, which begins with the request).
\<close>

record narration =
  isGenerating :: bool
  generationStatus :: jsstring
  narrationError :: "js_error option"
  audioUrl :: "blob option"
  translationRequests :: "jsstring list"
  dispatched :: "(nat \<times> jsstring) list"

subsection \<open>The run\<close>

text \<open>The re-wrapping of a chunk at the head of each iteration.\<close>

definition rewrap :: "bool \<Rightarrow> jsstring \<Rightarrow> jsstring" where
  "rewrap isSsml chunk =
     (if isSsml then
        (let chunkToSynthesize =
               (if \<not> startsWith chunk (str ''<speak>'') then str ''<speak>'' @ chunk else chunk);
             chunkToSynthesize =
               (if \<not> endsWith chunkToSynthesize (str ''</speak>'')
                then chunkToSynthesize @ str ''</speak>'' else chunkToSynthesize)
         in chunkToSynthesize)
      else chunk)"

text \<open>The loop over the parts, which stops at the first part with inline data.\<close>

fun firstInlineData :: "part list \<Rightarrow> jsstring option" where
  "firstInlineData [] = None"
| "firstInlineData (p # ps) =
     (case p of
        Some d \<Rightarrow> if d \<noteq> [] then Some d else firstInlineData ps
      | None \<Rightarrow> firstInlineData ps)"

definition targetModel :: "provider \<Rightarrow> jsstring" where
  "targetModel p =
     (if p = Gemini3Pro then str ''gemini-3-pro-preview''
      else if p = Gemini3Flash then str ''gemini-3-flash-preview''
      else if p = Gemini25Flash then str ''gemini-2.5-flash-native-audio-preview-09-2025''
      else str ''gemini-2.5-flash-preview-tts'')"

text \<open>
  The body of the inner \<open>try\<close> for one chunk: \<open>Inl\<close> is the message of what it throws,
  \<open>Inr (Some buffer)\<close> a buffer pushed on \<open>audioParts\<close>, \<open>Inr None\<close> nothing pushed.
\<close>

definition synthesizeChunk :: "network \<Rightarrow> settings \<Rightarrow> nat \<Rightarrow> jsstring \<Rightarrow> jsstring + bytes option" where
  "synthesizeChunk net cfg i chunkToSynthesize =
     (if narrationProvider cfg = ElevenLabs then
        (case elevenlabsSpeech net i chunkToSynthesize of
           Rejected message \<Rightarrow> Inl message
         | Resolved res \<Rightarrow>
             if \<not> ok res then Inl (str ''ElevenLabs API Failed.'')
             else (case arrayBuffer res of
                     Rejected message \<Rightarrow> Inl message
                   | Resolved buffer \<Rightarrow> Inr (Some buffer)))
      else if narrationProvider cfg = Resemble then
        (case resembleClips net i chunkToSynthesize of
           Rejected message \<Rightarrow> Inl message
         | Resolved res \<Rightarrow>
             if \<not> ok res then Inl (str ''Resemble AI API error.'')
             else (case jsonItemLink res of
                     Rejected message \<Rightarrow> Inl message
                   | Resolved link \<Rightarrow>
                       (case resembleAudio net i link of
                          Rejected message \<Rightarrow> Inl message
                        | Resolved audioFetch \<Rightarrow>
                            (case arrayBuffer audioFetch of
                               Rejected message \<Rightarrow> Inl message
                             | Resolved buffer \<Rightarrow> Inr (Some buffer)))))
      else
        (let customProfile = find (\<lambda>v. voiceId v = selectedVoiceKey cfg) (customVoices cfg);
             baseVoiceName =
               (case customProfile of
                  Some profile \<Rightarrow> baseVoice profile
                | None \<Rightarrow> (case narrationPrebuiltVoices (selectedVoiceKey cfg) of
                             Some voiceName \<Rightarrow> if voiceName \<noteq> [] then voiceName else str ''Charon''
                           | None \<Rightarrow> str ''Charon''));
             contents =
               (case customProfile of
                  Some profile \<Rightarrow>
                    str ''[Instruction: '' @ instruction profile @ str ''] '' @ chunkToSynthesize
                | None \<Rightarrow> chunkToSynthesize)
         in case geminiContent net i (targetModel (narrationProvider cfg)) contents baseVoiceName of
              Rejected message \<Rightarrow> Inl message
            | Resolved parts \<Rightarrow>
                (case (case parts of Some ps \<Rightarrow> firstInlineData ps | None \<Rightarrow> None) of
                   Some base64 \<Rightarrow> Inr (Some (decode net base64))
                 | None \<Rightarrow> Inr None)))"

text \<open>The \<open>for\<close> loop, from index \<open>i\<close> over the chunks that remain; \<open>n\<close> is \<open>chunks.length\<close>.\<close>

fun synthesizeLoop ::
  "network \<Rightarrow> settings \<Rightarrow> bool \<Rightarrow> nat \<Rightarrow> nat \<Rightarrow> jsstring list \<Rightarrow> bytes list \<Rightarrow> narration
     \<Rightarrow> (js_error + bytes list) \<times> narration" where
  "synthesizeLoop net cfg isSsml n i [] audioParts st = (Inr audioParts, st)"
| "synthesizeLoop net cfg isSsml n i (chunk # chunks) audioParts st =
     (let st = st\<lparr>generationStatus :=
                    str ''Synthesizing Sequence '' @ decimal (i + 1) @ str ''/'' @ decimal n @ str ''...''\<rparr>;
          chunkToSynthesize = rewrap isSsml chunk;
          st = st\<lparr>dispatched := dispatched st @ [(i, chunkToSynthesize)]\<rparr>
      in case synthesizeChunk net cfg i chunkToSynthesize of
           Inl message \<Rightarrow>
             (Inl (Error (str ''Sequence '' @ decimal (i + 1) @ str '' Failed: '' @ message)), st)
         | Inr audio \<Rightarrow>
             synthesizeLoop net cfg isSsml n (i + 1) chunks
               (audioParts @ (case audio of Some buffer \<Rightarrow> [buffer] | None \<Rightarrow> [])) st)"

definition translationContents :: "jsstring \<Rightarrow> jsstring \<Rightarrow> jsstring" where
  "translationContents language ruleAppliedText =
     str ''Translate to '' @ language @
     str ''. Keep SSML tags <speak>, <break>, <prosody> intact. Script:'' @ [0x0A] @ ruleAppliedText"

text \<open>The outer \<open>catch\<close> and \<open>finally\<close>.\<close>

definition failed :: "js_error \<Rightarrow> narration \<Rightarrow> narration" where
  "failed err st = st\<lparr>narrationError := Some err, isGenerating := False\<rparr>"

text \<open>From the chunking to the audio URL.\<close>

definition synthesizeText :: "network \<Rightarrow> settings \<Rightarrow> bool \<Rightarrow> jsstring \<Rightarrow> narration \<Rightarrow> narration option" where
  "synthesizeText net cfg isSsml ruleAppliedText st =
     (case splitTextIntoChunks ruleAppliedText 3000 of
        None \<Rightarrow> None
      | Some chunks \<Rightarrow>
          (case synthesizeLoop net cfg isSsml (length chunks) 0 chunks [] st of
             (Inl err, st) \<Rightarrow> Some (failed err st)
           | (Inr audioParts, st) \<Rightarrow>
               (let concatenated = concatenateBuffers audioParts;
                    isMpeg = (narrationProvider cfg = ElevenLabs \<or> narrationProvider cfg = Resemble)
                in Some (st\<lparr>audioUrl := Some (if isMpeg then Mpeg concatenated
                                               else Wav concatenated 24000 1),
                            isGenerating := False\<rparr>))))"

text \<open>The translation request and \<open>transResponse.text || ruleAppliedText\<close>.\<close>

definition translationPass :: "network \<Rightarrow> settings \<Rightarrow> jsstring \<Rightarrow> jsstring awaited" where
  "translationPass net cfg ruleAppliedText =
     (case translateContent net (translationContents (narrationLanguage cfg) ruleAppliedText) of
        Rejected message \<Rightarrow> Rejected message
      | Resolved transResponseText \<Rightarrow>
          Resolved (case transResponseText of
                      Some translated \<Rightarrow> if translated \<noteq> [] then translated else ruleAppliedText
                    | None \<Rightarrow> ruleAppliedText))"

text \<open>
  \<open>generateNarration\<close>. The result is \<open>None\<close> where the model has no answer: a rule's
  pattern is outside the fragment of the pattern syntax, or the chunker does not return
  (which with 3000 code units a chunk it always does).
\<close>

definition generateNarration :: "network \<Rightarrow> settings \<Rightarrow> narration \<Rightarrow> narration option" where
  "generateNarration net cfg st =
     (let st = st\<lparr>isGenerating := True,
                  generationStatus := str ''Calibrating Neural Synthesis...'',
                  narrationError := None, audioUrl := None,
                  translationRequests := [], dispatched := []\<rparr>
      in case applyRules (pronunciationRules cfg) (narrationText cfg) of
           Unsupported \<Rightarrow> None
         | Throw err \<Rightarrow> Some (failed err st)
         | Normal ruleAppliedText \<Rightarrow>
             (let isSsml = includesStr ruleAppliedText (str ''<speak>'')
              in if narrationLanguage cfg \<noteq> str ''English (US)'' then
                   (let st = st\<lparr>generationStatus :=
                                  str ''Translating to '' @ narrationLanguage cfg @ str ''...'',
                                translationRequests :=
                                  [translationContents (narrationLanguage cfg) ruleAppliedText]\<rparr>
                    in case translationPass net cfg ruleAppliedText of
                         Rejected message \<Rightarrow> Some (failed (Error message) st)
                       | Resolved ruleAppliedText \<Rightarrow>
                           synthesizeText net cfg isSsml ruleAppliedText st)
                 else synthesizeText net cfg isSsml ruleAppliedText st))"

subsection \<open>Example runs\<close>

definition idle :: narration where
  "idle = \<lparr>isGenerating = False, generationStatus = [], narrationError = None, audioUrl = None,
           translationRequests = [], dispatched = []\<rparr>"

definition offline :: network where
  "offline =
     \<lparr>translateContent = (\<lambda>contents. Rejected (str ''Failed to fetch'')),
      elevenlabsSpeech = (\<lambda>i body. Rejected (str ''Failed to fetch'')),
      resembleClips = (\<lambda>i body. Rejected (str ''Failed to fetch'')),
      resembleAudio = (\<lambda>i link. Rejected (str ''Failed to fetch'')),
      geminiContent = (\<lambda>i model contents voiceName. Rejected (str ''Failed to fetch'')),
      decode = (\<lambda>base64. [])\<rparr>"

definition helloScript :: settings where
  "helloScript =
     \<lparr>narrationText = str ''Hello world.'', pronunciationRules = [],
      narrationLanguage = str ''English (US)'', narrationProvider = Gemini25Tts,
      customVoices = [], selectedVoiceKey = str ''Charon (Deep Male)''\<rparr>"

definition longScript :: settings where
  "longScript =
     \<lparr>narrationText = replicate 3000 0x78 @ str '' tail'', pronunciationRules = [],
      narrationLanguage = str ''English (US)'', narrationProvider = ElevenLabs,
      customVoices = [], selectedVoiceKey = str ''Charon (Deep Male)''\<rparr>"

definition secondRejected :: network where
  "secondRejected =
     offline\<lparr>elevenlabsSpeech :=
       (\<lambda>i body. if i = 0 then Resolved \<lparr>ok = True, arrayBuffer = Resolved [1, 2],
                                           jsonItemLink = Rejected []\<rparr>
                  else Resolved \<lparr>ok = False, arrayBuffer = Resolved [],
                                 jsonItemLink = Rejected []\<rparr>)\<rparr>"

definition textOnly :: network where
  "textOnly = offline\<lparr>geminiContent := (\<lambda>i model contents voiceName. Resolved (Some [None]))\<rparr>"

definition thaiScript :: settings where
  "thaiScript = helloScript\<lparr>narrationLanguage := str ''Thai (TH)''\<rparr>"

definition untranslated :: network where
  "untranslated =
     offline\<lparr>translateContent := (\<lambda>contents. Resolved None),
             geminiContent := (\<lambda>i model contents voiceName. Resolved (Some [None, Some (str ''AQID'')])),
             decode := (\<lambda>base64. [1, 2, 3])\<rparr>"

definition markupInside :: settings where
  "markupInside = helloScript\<lparr>narrationText := str ''Intro <speak>Hello</speak> outro''\<rparr>"

lemmas narration_eval =
  generateNarration_def synthesizeText_def splitTextIntoChunks_def synthesizeChunk_def
  translationPass_def translationContents_def rewrap_def startsWith_def endsWith_def
  narrationPrebuiltVoices_def targetModel_def failed_def idle_def offline_def helloScript_def
  concatenateBuffers_def decimal.simps str_def Let_def

subsection \<open>The loop and the chunks it is given\<close>

lemma splitTextIntoChunks_returns:
  "1 \<le> maxChars \<Longrightarrow> \<exists>chunks. splitTextIntoChunks text maxChars = Some chunks"
  using splitLoop_returns [of maxChars "text" 0 "[]"]
  by (auto simp: splitTextIntoChunks_def)

lemma startsWith_append: "startsWith (p @ s) p"
  by (simp add: startsWith_def)

lemma endsWith_append: "endsWith (s @ p) p"
  by (simp add: endsWith_def)

lemma startsWith_append_right: "startsWith s p \<Longrightarrow> startsWith (s @ t) p"
proof -
  assume a: "startsWith s p"
  have "min (length s) (length p) = length (take (length p) s)" by simp
  also have "\<dots> = length p" using a unfolding startsWith_def by simp
  finally have "length p \<le> length s" by arith
  then show ?thesis using a by (simp add: startsWith_def)
qed

lemma rewrap_wrapped:
  "startsWith (rewrap True chunk) (str ''<speak>'') \<and> endsWith (rewrap True chunk) (str ''</speak>'')"
proof -
  define c1 where "c1 = (if \<not> startsWith chunk (str ''<speak>'') then str ''<speak>'' @ chunk else chunk)"
  have s1: "startsWith c1 (str ''<speak>'')" by (simp add: c1_def startsWith_append)
  have r: "rewrap True chunk = (if \<not> endsWith c1 (str ''</speak>'') then c1 @ str ''</speak>'' else c1)"
    by (simp add: rewrap_def c1_def Let_def)
  show ?thesis unfolding r using s1 by (simp add: startsWith_append_right endsWith_append)
qed

lemma rewrap_plain: "rewrap False chunk = chunk"
  by (simp add: rewrap_def)

lemma synthesizeLoop_shape:
  "synthesizeLoop net cfg isSsml n i chunks audioParts st = (r, st') \<Longrightarrow>
   \<exists>k\<le>length chunks.
     dispatched st' = dispatched st @ map (\<lambda>j. (i + j, rewrap isSsml (chunks ! j))) [0..<k] \<and>
     audioUrl st' = audioUrl st \<and> narrationError st' = narrationError st \<and>
     translationRequests st' = translationRequests st \<and> isGenerating st' = isGenerating st"
proof (induction chunks arbitrary: i audioParts st)
  case Nil
  then show ?case by simp
next
  case (Cons chunk chunks)
  let ?st1 = "st\<lparr>generationStatus :=
                    str ''Synthesizing Sequence '' @ decimal (i + 1) @ str ''/'' @ decimal n @ str ''...'',
                 dispatched := dispatched st @ [(i, rewrap isSsml chunk)]\<rparr>"
  show ?case
  proof (cases "synthesizeChunk net cfg i (rewrap isSsml chunk)")
    case (Inl message)
    then have "st' = ?st1" using Cons.prems by (simp add: Let_def)
    then show ?thesis by (intro exI [of _ 1]) simp
  next
    case (Inr audio)
    then have "synthesizeLoop net cfg isSsml n (i + 1) chunks
        (audioParts @ (case audio of Some buffer \<Rightarrow> [buffer] | None \<Rightarrow> [])) ?st1 = (r, st')"
      using Cons.prems by (simp add: Let_def)
    from Cons.IH [OF this] obtain k where
      k: "k \<le> length chunks"
         "dispatched st' = dispatched ?st1 @ map (\<lambda>j. (i + 1 + j, rewrap isSsml (chunks ! j))) [0..<k]"
         "audioUrl st' = audioUrl ?st1" "narrationError st' = narrationError ?st1"
         "translationRequests st' = translationRequests ?st1" "isGenerating st' = isGenerating ?st1"
      by blast
    have "map (\<lambda>j. (i + j, rewrap isSsml ((chunk # chunks) ! j))) [0..<Suc k]
        = (i, rewrap isSsml chunk) # map (\<lambda>j. (i + 1 + j, rewrap isSsml (chunks ! j))) [0..<k]"
      by (simp add: upt_conv_Cons map_Suc_upt [symmetric] del: upt_Suc)
    then show ?thesis using k by (intro exI [of _ "Suc k"]) simp
  qed
qed

lemma synthesizeLoop_fails:
  assumes "k < length chunks"
      and "\<forall>j<k. \<exists>audio. synthesizeChunk net cfg (i + j) (rewrap isSsml (chunks ! j)) = Inr audio"
      and "synthesizeChunk net cfg (i + k) (rewrap isSsml (chunks ! k)) = Inl message"
  shows "\<exists>st'. synthesizeLoop net cfg isSsml n i chunks audioParts st
            = (Inl (Error (str ''Sequence '' @ decimal (i + k + 1) @ str '' Failed: '' @ message)), st') \<and>
          dispatched st' = dispatched st @ map (\<lambda>j. (i + j, rewrap isSsml (chunks ! j))) [0..<k + 1]"
  using assms
proof (induction chunks arbitrary: i k audioParts st)
  case Nil
  then show ?case by simp
next
  case (Cons chunk chunks)
  let ?st1 = "st\<lparr>generationStatus :=
                    str ''Synthesizing Sequence '' @ decimal (i + 1) @ str ''/'' @ decimal n @ str ''...'',
                 dispatched := dispatched st @ [(i, rewrap isSsml chunk)]\<rparr>"
  show ?case
  proof (cases k)
    case 0
    then have "synthesizeChunk net cfg i (rewrap isSsml chunk) = Inl message"
      using Cons.prems(3) by simp
    then show ?thesis using 0 by (simp add: Let_def)
  next
    case (Suc k')
    obtain audio where audio: "synthesizeChunk net cfg i (rewrap isSsml chunk) = Inr audio"
      using Cons.prems(2) Suc by force
    have 1: "k' < length chunks" using Cons.prems(1) Suc by simp
    have 2: "\<forall>j<k'. \<exists>audio. synthesizeChunk net cfg (i + 1 + j) (rewrap isSsml (chunks ! j)) = Inr audio"
    proof (intro allI impI)
      fix j assume "j < k'"
      then have "Suc j < k" using Suc by simp
      with Cons.prems(2) show "\<exists>audio. synthesizeChunk net cfg (i + 1 + j) (rewrap isSsml (chunks ! j)) = Inr audio"
        by fastforce
    qed
    have 3: "synthesizeChunk net cfg (i + 1 + k') (rewrap isSsml (chunks ! k')) = Inl message"
      using Cons.prems(3) Suc by simp
    from Cons.IH [OF 1 2 3, of "audioParts @ (case audio of Some buffer \<Rightarrow> [buffer] | None \<Rightarrow> [])" ?st1]
    obtain st' where
      st': "synthesizeLoop net cfg isSsml n (i + 1) chunks
              (audioParts @ (case audio of Some buffer \<Rightarrow> [buffer] | None \<Rightarrow> [])) ?st1
            = (Inl (Error (str ''Sequence '' @ decimal (i + 1 + k' + 1) @ str '' Failed: '' @ message)), st')"
           "dispatched st' = dispatched ?st1 @ map (\<lambda>j. (i + 1 + j, rewrap isSsml (chunks ! j))) [0..<k' + 1]"
      by blast
    have m: "map (\<lambda>j. (i + j, rewrap isSsml ((chunk # chunks) ! j))) [0..<Suc (Suc k')]
        = (i, rewrap isSsml chunk) # map (\<lambda>j. (i + 1 + j, rewrap isSsml (chunks ! j))) [0..<Suc k']"
      by (simp add: upt_conv_Cons map_Suc_upt [symmetric] del: upt_Suc)
    show ?thesis
      using st' audio m by (intro exI [of _ st']) (simp add: Let_def Suc)
  qed
qed

lemma synthesizeText_shape:
  assumes "synthesizeText net cfg isSsml t st = Some st'"
  shows "\<exists>chunks k. splitTextIntoChunks t 3000 = Some chunks \<and> k \<le> length chunks \<and>
           dispatched st' = dispatched st @ map (\<lambda>j. (j, rewrap isSsml (chunks ! j))) [0..<k] \<and>
           translationRequests st' = translationRequests st"
proof -
  from assms obtain chunks where c: "splitTextIntoChunks t 3000 = Some chunks"
    by (auto simp: synthesizeText_def split: option.splits)
  obtain r st1 where l: "synthesizeLoop net cfg isSsml (length chunks) 0 chunks [] st = (r, st1)"
    by (cases "synthesizeLoop net cfg isSsml (length chunks) 0 chunks [] st")
  from synthesizeLoop_shape [OF l] obtain k where
    k: "k \<le> length chunks"
       "dispatched st1 = dispatched st @ map (\<lambda>j. (0 + j, rewrap isSsml (chunks ! j))) [0..<k]"
       "translationRequests st1 = translationRequests st"
    by blast
  have "dispatched st' = dispatched st1 \<and> translationRequests st' = translationRequests st1"
    using assms c l by (cases r) (auto simp: synthesizeText_def failed_def Let_def)
  then show ?thesis using c k by auto
qed

lemma synthesizeText_fails:
  assumes "splitTextIntoChunks t 3000 = Some chunks"
      and "k < length chunks"
      and "\<forall>j<k. \<exists>audio. synthesizeChunk net cfg j (rewrap isSsml (chunks ! j)) = Inr audio"
      and "synthesizeChunk net cfg k (rewrap isSsml (chunks ! k)) = Inl message"
      and "audioUrl st = None" and "dispatched st = []"
  shows "\<exists>st'. synthesizeText net cfg isSsml t st = Some st' \<and>
           narrationError st' = Some (Error (str ''Sequence '' @ decimal (k + 1) @ str '' Failed: '' @ message)) \<and>
           audioUrl st' = None \<and> map fst (dispatched st') = [0..<k + 1] \<and> \<not> isGenerating st'"
proof -
  from synthesizeLoop_fails [of k chunks net cfg 0 isSsml message "length chunks" "[]" st]
  obtain st1 where
    l: "synthesizeLoop net cfg isSsml (length chunks) 0 chunks [] st
          = (Inl (Error (str ''Sequence '' @ decimal (0 + k + 1) @ str '' Failed: '' @ message)), st1)"
       "dispatched st1 = dispatched st @ map (\<lambda>j. (0 + j, rewrap isSsml (chunks ! j))) [0..<k + 1]"
    using assms(2,3,4) by auto
  from synthesizeLoop_shape [OF l(1)] have u: "audioUrl st1 = audioUrl st" by blast
  have "map fst (dispatched st1) = [0..<k + 1]"
    unfolding l(2) assms(6) by (simp add: comp_def map_idI del: upt_Suc)
  then show ?thesis
    using l(1) u assms(1,5) by (simp add: synthesizeText_def failed_def)
qed

text \<open>A script of two chunks: 3000 letters, a space, and a tail.\<close>

lemma lastIndexFrom_hit: "k < length s \<Longrightarrow> s ! k = c \<Longrightarrow> lastIndexFrom s c k = int k"
  by (cases k) auto

lemma trim_replicate:
  "\<not> isStrWhiteSpaceChar x \<Longrightarrow> trim (replicate n x) = replicate n x"
  by (cases n) (simp_all add: trim_def replicate_append_same [symmetric] del: replicate_Suc)

lemma two_chunks:
  "splitTextIntoChunks (replicate 3000 0x78 @ str '' tail'') 3000 = Some [replicate 3000 0x78, str ''tail'']"
proof -
  define A :: jsstring where "A = replicate 3000 0x78"
  define script where "script = A @ str '' tail''"
  have len: "length A = 3000" "length script = 3005" by (simp_all add: A_def script_def str_def)
  have sp: "script ! 3000 = 0x20"
    using nth_append_length [of A "0x20" "str ''tail''"] by (simp add: script_def len str_def)
  have ls: "lastIndexOf script 0x20 3000 = 3000"
    using lastIndexFrom_hit [of 3000 script "0x20"] sp by (simp add: lastIndexOf_def len)
  have ln: "lastIndexOf script 0x0A 3000 \<le> 3000"
    using lastIndexOf_le [of script "0x0A" 3000] by simp
  have bp: "max (lastIndexOf script 0x20 3000) (lastIndexOf script 0x0A 3000) = 3000"
    using ls ln by simp
  have s1: "substring script 0 3000 = A"
    by (simp add: substring_def Let_def len script_def)
  have s2: "substring script 3000 3005 = str '' tail''"
    by (simp add: substring_def Let_def len) (simp add: script_def len)
  have t1: "trim A = A"
    unfolding A_def by (rule trim_replicate) (simp add: isStrWhiteSpaceChar_def isWhiteSpace_def isLineTerminator_def)
  have t2: "trim (str '' tail'') = str ''tail''"
    by (simp add: trim_def str_def isStrWhiteSpaceChar_def isWhiteSpace_def isLineTerminator_def)
  have step3: "splitLoop script 3000 3005 [A, str ''tail''] = Some [A, str ''tail'']"
    by (subst splitLoop.simps) (simp add: len)
  have step2: "splitLoop script 3000 3000 [A] = splitLoop script 3000 3005 [A, str ''tail'']"
    by (subst splitLoop.simps) (simp add: len Let_def s2 t2)
  have step1: "splitLoop script 3000 0 [] = splitLoop script 3000 3000 [A]"
    by (subst splitLoop.simps) (simp add: len Let_def bp s1 t1)
  have ne: "A \<noteq> []" "str ''tail'' \<noteq> []" by (simp_all add: A_def str_def)
  show ?thesis
    unfolding script_def [symmetric] A_def [symmetric]
    using ne by (simp add: splitTextIntoChunks_def len step1 step2 step3)
qed

lemma first_ok:
  "synthesizeChunk secondRejected longScript 0 (replicate 3000 0x78) = Inr (Some [1, 2])"
  by (simp add: synthesizeChunk_def secondRejected_def longScript_def offline_def)

lemma second_not_ok:
  "synthesizeChunk secondRejected longScript 1 (str ''tail'') = Inl (str ''ElevenLabs API Failed.'')"
  by (simp add: synthesizeChunk_def secondRejected_def longScript_def offline_def)

lemma includesStr_short: "length s < length p \<Longrightarrow> \<not> includesStr s p"
  by (induction s) (auto simp: startsWith_def)

lemma includesStr_append_replicate:
  "x \<notin> set p \<Longrightarrow> p \<noteq> [] \<Longrightarrow> includesStr (replicate n x @ s) p = includesStr s p"
proof (induction n)
  case 0
  show ?case by simp
next
  case (Suc n)
  from Suc.prems obtain c cs where p: "p = c # cs" "c \<noteq> x" by (cases p) auto
  then have "\<not> startsWith (x # replicate n x @ s) p" by (simp add: startsWith_def)
  then show ?case using Suc by simp
qed

lemma longScript_plain: "\<not> includesStr (replicate 3000 0x78 @ str '' tail'') (str ''<speak>'')"
proof -
  have "includesStr (replicate 3000 0x78 @ str '' tail'') (str ''<speak>'')
      = includesStr (str '' tail'') (str ''<speak>'')"
    by (rule includesStr_append_replicate) (simp_all add: str_def)
  also have "\<dots> = False" by (simp add: str_def startsWith_def)
  finally show ?thesis by simp
qed

text \<open>
  C4. In a run that reaches the loop with the chunks \<open>chunks\<close> (0-based here), if the
  synthesis of the chunks before \<open>k\<close> returns and that of chunk \<open>k\<close> throws, the run
  ends with the error \<open>Sequence k+1 Failed: ...\<close>, which names the failing chunk by its
  1-based index, the chunks dispatched are exactly those up to \<open>k\<close>, and the audio URL
  stays null.
\<close>

theorem generateNarration_fail_fast:
  assumes "applyRules (pronunciationRules cfg) (narrationText cfg) = Normal t"
      and "if narrationLanguage cfg \<noteq> str ''English (US)''
           then translationPass net cfg t = Resolved t' else t' = t"
      and "splitTextIntoChunks t' 3000 = Some chunks"
      and "k < length chunks"
      and "\<forall>j<k. \<exists>audio.
             synthesizeChunk net cfg j (rewrap (includesStr t (str ''<speak>'')) (chunks ! j)) = Inr audio"
      and "synthesizeChunk net cfg k (rewrap (includesStr t (str ''<speak>'')) (chunks ! k)) = Inl message"
  shows "\<exists>st'. generateNarration net cfg st = Some st' \<and>
           narrationError st'
             = Some (Error (str ''Sequence '' @ decimal (k + 1) @ str '' Failed: '' @ message)) \<and>
           audioUrl st' = None \<and> map fst (dispatched st') = [0..<k + 1] \<and> \<not> isGenerating st'"
proof -
  define st0 where "st0 = st\<lparr>isGenerating := True,
       generationStatus := str ''Calibrating Neural Synthesis...'',
       narrationError := None, audioUrl := None, translationRequests := [], dispatched := []\<rparr>"
  define st1 where "st1 = st0\<lparr>generationStatus :=
        str ''Translating to '' @ narrationLanguage cfg @ str ''...'',
       translationRequests := [translationContents (narrationLanguage cfg) t]\<rparr>"
  have run: "generateNarration net cfg st
      = synthesizeText net cfg (includesStr t (str ''<speak>'')) t'
          (if narrationLanguage cfg \<noteq> str ''English (US)'' then st1 else st0)"
    using assms(1,2) by (simp add: generateNarration_def Let_def st0_def st1_def)
  have "audioUrl (if narrationLanguage cfg \<noteq> str ''English (US)'' then st1 else st0) = None"
       "dispatched (if narrationLanguage cfg \<noteq> str ''English (US)'' then st1 else st0) = []"
    by (simp_all add: st0_def st1_def)
  from synthesizeText_fails [OF assms(3,4,5,6) this] show ?thesis
    unfolding run .
qed

theorem generateNarration_fail_fast_witness:
  "applyRules (pronunciationRules longScript) (narrationText longScript)
     = Normal (replicate 3000 0x78 @ str '' tail'') \<and>
   narrationLanguage longScript = str ''English (US)'' \<and>
   splitTextIntoChunks (replicate 3000 0x78 @ str '' tail'') 3000
     = Some [replicate 3000 0x78, str ''tail''] \<and>
   synthesizeChunk secondRejected longScript 0 (replicate 3000 0x78) = Inr (Some [1, 2]) \<and>
   synthesizeChunk secondRejected longScript 1 (str ''tail'') = Inl (str ''ElevenLabs API Failed.'') \<and>
   (\<exists>st'. generateNarration secondRejected longScript idle = Some st' \<and>
      narrationError st' = Some (Error (str ''Sequence 2 Failed: ElevenLabs API Failed.'')) \<and>
      audioUrl st' = None \<and> map fst (dispatched st') = [0, 1] \<and> \<not> isGenerating st')"
proof -
  let ?t = "replicate 3000 0x78 @ str '' tail''"
  have h1: "applyRules (pronunciationRules longScript) (narrationText longScript) = Normal ?t"
    by (simp add: longScript_def)
  have lang: "narrationLanguage longScript = str ''English (US)''" by (simp add: longScript_def)
  then have h2: "if narrationLanguage longScript \<noteq> str ''English (US)''
        then translationPass secondRejected longScript ?t = Resolved ?t else ?t = ?t"
    by simp
  have plain: "rewrap (includesStr ?t (str ''<speak>'')) c = c" for c
    using longScript_plain by (simp add: rewrap_def)
  have h5: "\<forall>j<1. \<exists>audio. synthesizeChunk secondRejected longScript j
       (rewrap (includesStr ?t (str ''<speak>'')) ([replicate 3000 0x78, str ''tail''] ! j)) = Inr audio"
    using first_ok by (simp add: plain)
  have h6: "synthesizeChunk secondRejected longScript 1
       (rewrap (includesStr ?t (str ''<speak>'')) ([replicate 3000 0x78, str ''tail''] ! 1))
       = Inl (str ''ElevenLabs API Failed.'')"
    using second_not_ok by (simp add: plain)
  have d: "str ''Sequence '' @ decimal (1 + 1) @ str '' Failed: '' @ str ''ElevenLabs API Failed.''
      = str ''Sequence 2 Failed: ElevenLabs API Failed.''"
    by (simp add: decimal.simps str_def)
  have u: "[0..<1 + 1] = [0, Suc 0]" by (simp add: upt_conv_Cons)
  from generateNarration_fail_fast [OF h1 h2 two_chunks _ h5 h6, of idle]
  have "\<exists>st'. generateNarration secondRejected longScript idle = Some st' \<and>
      narrationError st' = Some (Error (str ''Sequence 2 Failed: ElevenLabs API Failed.'')) \<and>
      audioUrl st' = None \<and> map fst (dispatched st') = [0, 1] \<and> \<not> isGenerating st'"
    unfolding d u by simp
  then show ?thesis using h1 lang two_chunks first_ok second_not_ok by simp
qed

text \<open>
  C5, at the failing input: a Gemini response whose only part carries no inline data. The
  chunk's synthesis throws nothing; the run goes on and ends with an audio URL for a WAV of
  no samples and with no error.
\<close>

theorem generateNarration_silent_chunk:
  "generateNarration textOnly helloScript idle =
     Some \<lparr>isGenerating = False, generationStatus = str ''Synthesizing Sequence 1/1...'',
           narrationError = None, audioUrl = Some (Wav [] 24000 1),
           translationRequests = [], dispatched = [(0, str ''Hello world.'')]\<rparr>"
  by (simp add: narration_eval textOnly_def)

text \<open>
  C6, at the failing input. The rule Gemini to Jeminai turns \<open>Ask Gemini about Gemini.\<close>
  into \<open>Ask Jeminai about Jeminai.\<close> and leaves \<open>Geminis\<close> alone, and two rules in
  sequence are applied one after the other, the second to what the first has written. But
  the word of a rule is read as a pattern: the text \<open>abc\<close> does not contain the word
  \<open>a.c\<close>, not even up to case, and the rule \<open>a.c\<close> to \<open>x\<close> rewrites it all the same,
  the dot standing for any character.
\<close>

theorem pronunciation_word_read_as_pattern:
  "applyRules [\<lparr>word = str ''Gemini'', alias = str ''Jeminai''\<rparr>] (str ''Ask Gemini about Gemini.'')
     = Normal (str ''Ask Jeminai about Jeminai.'') \<and>
   applyRules [\<lparr>word = str ''Gemini'', alias = str ''Jeminai''\<rparr>] (str ''Geminis rise'')
     = Normal (str ''Geminis rise'') \<and>
   applyRules [\<lparr>word = str ''a'', alias = str ''b''\<rparr>, \<lparr>word = str ''b'', alias = str ''c''\<rparr>] (str ''a b'')
     = Normal (str ''c c'') \<and>
   \<not> includesStr (map Canonicalize (str ''abc'')) (map Canonicalize (str ''a.c'')) \<and>
   applyRules [\<lparr>word = str ''a.c'', alias = str ''x''\<rparr>] (str ''abc'') = Normal (str ''x'')"
  by (simp add: rewriter_eval startsWith_def)

text \<open>
  C7, at the failing input. The empty rule list leaves the text as it is, but a rule whose
  word is \<open>C++\<close> makes \<open>new RegExp\<close> throw a \<open>SyntaxError\<close>, whatever the text, and the
  run ends with that error before anything is dispatched.
\<close>

theorem pronunciation_rule_throws:
  "applyRules [] s = Normal s \<and>
   applyRules [\<lparr>word = str ''C++'', alias = str ''C plus plus''\<rparr>] s = Throw SyntaxError \<and>
   generateNarration net (helloScript\<lparr>pronunciationRules :=
       [\<lparr>word = str ''C++'', alias = str ''C plus plus''\<rparr>]\<rparr>) idle
     = Some \<lparr>isGenerating = False, generationStatus = str ''Calibrating Neural Synthesis...'',
             narrationError = Some SyntaxError, audioUrl = None,
             translationRequests = [], dispatched = []\<rparr>"
  by (simp add: applyRule_def RegExp_gi_def consNode_def str_def generateNarration_def
        helloScript_def idle_def failed_def)

text \<open>
  C8 (amended). When the requested language is not \<open>English (US)\<close>, the whole
  rule-substituted script is sent once to the translation, before chunking. If the
  translation answers with no text or an empty text, the run continues on the
  rule-substituted text. If the translation request is rejected, the run ends there with
  the rejection's message as its error: nothing is dispatched and the audio URL stays null.
\<close>

theorem translation_fallback:
  fixes net cfg st t
  defines "st1 \<equiv> st\<lparr>isGenerating := True,
       generationStatus := str ''Calibrating Neural Synthesis...'',
       narrationError := None, audioUrl := None, translationRequests := [], dispatched := [],
       generationStatus := str ''Translating to '' @ narrationLanguage cfg @ str ''...'',
       translationRequests := [translationContents (narrationLanguage cfg) t]\<rparr>"
  assumes "applyRules (pronunciationRules cfg) (narrationText cfg) = Normal t"
      and "narrationLanguage cfg \<noteq> str ''English (US)''"
  shows "(\<forall>r. translateContent net (translationContents (narrationLanguage cfg) t) = Resolved r \<and>
              (r = None \<or> r = Some []) \<longrightarrow>
            generateNarration net cfg st
              = synthesizeText net cfg (includesStr t (str ''<speak>'')) t st1) \<and>
         (\<forall>message. translateContent net (translationContents (narrationLanguage cfg) t) = Rejected message \<longrightarrow>
            generateNarration net cfg st
              = Some (st1\<lparr>narrationError := Some (Error message), isGenerating := False\<rparr>)) \<and>
         (\<forall>st'. generateNarration net cfg st = Some st' \<longrightarrow>
            translationRequests st' = [translationContents (narrationLanguage cfg) t])"
proof -
  have resolved: "generateNarration net cfg st
        = synthesizeText net cfg (includesStr t (str ''<speak>'')) t' st1"
    if "translationPass net cfg t = Resolved t'" for t'
    using that assms(2,3) by (simp add: generateNarration_def Let_def st1_def)
  have rejected: "generateNarration net cfg st
        = Some (st1\<lparr>narrationError := Some (Error message), isGenerating := False\<rparr>)"
    if "translationPass net cfg t = Rejected message" for message
    using that assms(2,3) by (simp add: generateNarration_def Let_def st1_def failed_def)
  have a: "generateNarration net cfg st = synthesizeText net cfg (includesStr t (str ''<speak>'')) t st1"
    if "translateContent net (translationContents (narrationLanguage cfg) t) = Resolved r"
       "r = None \<or> r = Some []" for r
    using that by (intro resolved) (auto simp: translationPass_def)
  have b: "generateNarration net cfg st
        = Some (st1\<lparr>narrationError := Some (Error message), isGenerating := False\<rparr>)"
    if "translateContent net (translationContents (narrationLanguage cfg) t) = Rejected message"
    for message
    using that by (intro rejected) (simp add: translationPass_def)
  have c: "translationRequests st' = [translationContents (narrationLanguage cfg) t]"
    if "generateNarration net cfg st = Some st'" for st'
  proof (cases "translationPass net cfg t")
    case (Rejected message)
    then show ?thesis using that rejected by (auto simp: st1_def)
  next
    case (Resolved t')
    then have "synthesizeText net cfg (includesStr t (str ''<speak>'')) t' st1 = Some st'"
      using that resolved by simp
    from synthesizeText_shape [OF this] show ?thesis by (auto simp: st1_def)
  qed
  show ?thesis using a b c by blast
qed

theorem translation_fallback_witness:
  "applyRules (pronunciationRules thaiScript) (narrationText thaiScript) = Normal (str ''Hello world.'') \<and>
   narrationLanguage thaiScript \<noteq> str ''English (US)'' \<and>
   translateContent untranslated (translationContents (narrationLanguage thaiScript) (str ''Hello world.''))
     = Resolved None \<and>
   generateNarration untranslated thaiScript idle =
     Some \<lparr>isGenerating = False, generationStatus = str ''Synthesizing Sequence 1/1...'',
           narrationError = None, audioUrl = Some (Wav [1, 2, 3] 24000 1),
           translationRequests =
             [str ''Translate to Thai (TH). Keep SSML tags <speak>, <break>, <prosody> intact. Script:''
                @ [0x0A] @ str ''Hello world.''],
           dispatched = [(0, str ''Hello world.'')]\<rparr> \<and>
   translateContent offline (translationContents (narrationLanguage thaiScript) (str ''Hello world.''))
     = Rejected (str ''Failed to fetch'') \<and>
   narrationError (the (generateNarration offline thaiScript idle)) = Some (Error (str ''Failed to fetch'')) \<and>
   audioUrl (the (generateNarration offline thaiScript idle)) = None \<and>
   dispatched (the (generateNarration offline thaiScript idle)) = []"
  using translation_fallback [of thaiScript "str ''Hello world.''" untranslated idle]
    translation_fallback [of thaiScript "str ''Hello world.''" offline idle]
  by (simp add: narration_eval thaiScript_def untranslated_def)

text \<open>
  C8 as stated fails when the translation request itself fails: the run is aborted with the
  error, and no chunk of the original text is synthesized.
\<close>

theorem translation_rejected_counterexample:
  "narrationLanguage thaiScript \<noteq> str ''English (US)'' \<and>
   translateContent offline (translationContents (narrationLanguage thaiScript) (str ''Hello world.''))
     = Rejected (str ''Failed to fetch'') \<and>
   generateNarration offline thaiScript idle =
     Some \<lparr>isGenerating = False, generationStatus = str ''Translating to Thai (TH)...'',
           narrationError = Some (Error (str ''Failed to fetch'')), audioUrl = None,
           translationRequests =
             [str ''Translate to Thai (TH). Keep SSML tags <speak>, <break>, <prosody> intact. Script:''
                @ [0x0A] @ str ''Hello world.''],
           dispatched = []\<rparr>"
  by (simp add: narration_eval thaiScript_def)

text \<open>
  C10. If the rule-substituted text contains \<open><speak>\<close> anywhere, every chunk dispatched
  begins with \<open><speak>\<close> and ends with \<open></speak>\<close>; if it does not, the chunks dispatched
  are the chunks of the chunker, unchanged, in order.
\<close>

theorem rewrap_by_containment:
  assumes "applyRules (pronunciationRules cfg) (narrationText cfg) = Normal t"
      and "generateNarration net cfg st = Some st'"
  shows "(includesStr t (str ''<speak>'') \<longrightarrow>
            (\<forall>c \<in> snd ` set (dispatched st').
               startsWith c (str ''<speak>'') \<and> endsWith c (str ''</speak>''))) \<and>
         (\<not> includesStr t (str ''<speak>'') \<longrightarrow>
            dispatched st' = [] \<or>
            (\<exists>t' chunks k.
               (if narrationLanguage cfg \<noteq> str ''English (US)''
                then translationPass net cfg t = Resolved t' else t' = t) \<and>
               splitTextIntoChunks t' 3000 = Some chunks \<and> k \<le> length chunks \<and>
               dispatched st' = map (\<lambda>j. (j, chunks ! j)) [0..<k]))"
proof -
  define st0 where "st0 = st\<lparr>isGenerating := True,
       generationStatus := str ''Calibrating Neural Synthesis...'',
       narrationError := None, audioUrl := None, translationRequests := [], dispatched := []\<rparr>"
  define st1 where "st1 = st0\<lparr>generationStatus :=
        str ''Translating to '' @ narrationLanguage cfg @ str ''...'',
       translationRequests := [translationContents (narrationLanguage cfg) t]\<rparr>"
  define isSsml where "isSsml = includesStr t (str ''<speak>'')"
  have shape: "dispatched st' = [] \<or>
      (\<exists>t' chunks k.
         (if narrationLanguage cfg \<noteq> str ''English (US)''
          then translationPass net cfg t = Resolved t' else t' = t) \<and>
         splitTextIntoChunks t' 3000 = Some chunks \<and> k \<le> length chunks \<and>
         dispatched st' = map (\<lambda>j. (j, rewrap isSsml (chunks ! j))) [0..<k])"
  proof (cases "narrationLanguage cfg \<noteq> str ''English (US)''")
    case False
    then have "synthesizeText net cfg isSsml t st0 = Some st'"
      using assms by (simp add: generateNarration_def Let_def st0_def isSsml_def)
    from synthesizeText_shape [OF this] False show ?thesis by (auto simp: st0_def)
  next
    case True
    show ?thesis
    proof (cases "translationPass net cfg t")
      case (Rejected message)
      then have "st' = failed (Error message) st1"
        using assms True by (simp add: generateNarration_def Let_def st0_def st1_def)
      then show ?thesis by (simp add: failed_def st1_def st0_def)
    next
      case (Resolved t')
      then have "synthesizeText net cfg isSsml t' st1 = Some st'"
        using assms True by (simp add: generateNarration_def Let_def st0_def st1_def isSsml_def)
      from synthesizeText_shape [OF this] obtain chunks k where
        "splitTextIntoChunks t' 3000 = Some chunks" "k \<le> length chunks"
        "dispatched st' = dispatched st1 @ map (\<lambda>j. (j, rewrap isSsml (chunks ! j))) [0..<k]"
        by blast
      moreover have "dispatched st1 = []" by (simp add: st1_def st0_def)
      ultimately show ?thesis using True Resolved by auto
    qed
  qed
  have wrapped: "\<forall>c \<in> snd ` set (dispatched st').
       startsWith c (str ''<speak>'') \<and> endsWith c (str ''</speak>'')" if "isSsml"
    using shape that rewrap_wrapped by (auto simp del: upt_Suc)
  have plain: "dispatched st' = [] \<or>
      (\<exists>t' chunks k.
         (if narrationLanguage cfg \<noteq> str ''English (US)''
          then translationPass net cfg t = Resolved t' else t' = t) \<and>
         splitTextIntoChunks t' 3000 = Some chunks \<and> k \<le> length chunks \<and>
         dispatched st' = map (\<lambda>j. (j, chunks ! j)) [0..<k])" if "\<not> isSsml"
    using shape that by (simp add: rewrap_plain)
  show ?thesis using wrapped plain unfolding isSsml_def by blast
qed

text \<open>A script with the tag in the middle: the one chunk is wrapped around what is there.\<close>

theorem rewrap_by_containment_witness:
  "applyRules (pronunciationRules markupInside) (narrationText markupInside)
     = Normal (str ''Intro <speak>Hello</speak> outro'') \<and>
   includesStr (str ''Intro <speak>Hello</speak> outro'') (str ''<speak>'') \<and>
   \<not> startsWith (str ''Intro <speak>Hello</speak> outro'') (str ''<speak>'') \<and>
   generateNarration untranslated markupInside idle =
     Some \<lparr>isGenerating = False, generationStatus = str ''Synthesizing Sequence 1/1...'',
           narrationError = None, audioUrl = Some (Wav [1, 2, 3] 24000 1),
           translationRequests = [],
           dispatched = [(0, str ''<speak>Intro <speak>Hello</speak> outro</speak>'')]\<rparr> \<and>
   startsWith (str ''<speak>Intro <speak>Hello</speak> outro</speak>'') (str ''<speak>'') \<and>
   endsWith (str ''<speak>Intro <speak>Hello</speak> outro</speak>'') (str ''</speak>'') \<and>
   applyRules (pronunciationRules helloScript) (narrationText helloScript)
     = Normal (str ''Hello world.'') \<and>
   \<not> includesStr (str ''Hello world.'') (str ''<speak>'') \<and>
   splitTextIntoChunks (str ''Hello world.'') 3000 = Some [str ''Hello world.''] \<and>
   generateNarration untranslated helloScript idle =
     Some \<lparr>isGenerating = False, generationStatus = str ''Synthesizing Sequence 1/1...'',
           narrationError = None, audioUrl = Some (Wav [1, 2, 3] 24000 1),
           translationRequests = [],
           dispatched = [(0, str ''Hello world.'')]\<rparr>"
  using rewrap_by_containment [of markupInside "str ''Intro <speak>Hello</speak> outro''" untranslated idle]
    rewrap_by_containment [of helloScript "str ''Hello world.''" untranslated idle]
  by (simp add: narration_eval markupInside_def untranslated_def)

section \<open>DuplexSession: teardown and the playback scheduler\<close>

text \<open>
  The objects the component holds in its refs (the live session, the microphone tracks, the
  capture processor, the two audio contexts, the playback sources) are named by handles.
  What the code does to them is returned as a list of effects, in the order of the calls.
\<close>

type_synonym handle = nat

datatype speaker = User | Model

record transcriptMessage =
  speaker :: speaker
  msgText :: jsstring
  isFinal :: bool

text \<open>An \<open>AudioBuffer\<close>: its \<open>duration\<close> is its length in sample frames over its sample rate.\<close>

record audioBuffer =
  frameCount :: nat
  sampleRate :: nat

definition duration :: "audioBuffer \<Rightarrow> real" where
  "duration b = real (frameCount b) / real (sampleRate b)"

datatype effect =
    SessionClose handle
  | TrackStop handle
  | ProcessorDisconnect handle
  | ContextClose handle
  | SourceStop handle
  | SourceStart handle real

text \<open>
  The refs and state variables of the component that the session code reads and writes.
  \<open>streamRef\<close> holds the tracks of the microphone stream; \<open>sourcesRef\<close> is a JavaScript
  \<open>Set\<close>, kept in insertion order. Times are seconds on the output context's clock, taken
  as real numbers (the rounding of the doubles is not part of the model).
\<close>

record studio =
  sessionRef :: "handle option"
  streamRef :: "handle list option"
  scriptProcessorRef :: "handle option"
  inputAudioContextRef :: "handle option"
  outputAudioContextRef :: "handle option"
  sourcesRef :: "handle list"
  nextStartTimeRef :: real
  currentInputTranscriptionRef :: jsstring
  currentOutputTranscriptionRef :: jsstring
  isSessionActive :: bool
  transcript :: "transcriptMessage list"
  sessionError :: "js_error option"

definition setAdd :: "'a \<Rightarrow> 'a list \<Rightarrow> 'a list" where
  "setAdd x xs = (if x \<in> set xs then xs else xs @ [x])"

definition setDelete :: "'a \<Rightarrow> 'a list \<Rightarrow> 'a list" where
  "setDelete x xs = filter (\<lambda>y. y \<noteq> x) xs"

text \<open>\<open>stopSession\<close>, statement by statement: each ref is used and cleared only if it is set.\<close>

definition stopSession :: "studio \<Rightarrow> studio \<times> effect list" where
  "stopSession st =
     (let (st, fx) = (case sessionRef st of
                        Some session \<Rightarrow> (st\<lparr>sessionRef := None\<rparr>, [SessionClose session])
                      | None \<Rightarrow> (st, []));
          (st, fx) = (case streamRef st of
                        Some tracks \<Rightarrow> (st\<lparr>streamRef := None\<rparr>, fx @ map TrackStop tracks)
                      | None \<Rightarrow> (st, fx));
          (st, fx) = (case scriptProcessorRef st of
                        Some node \<Rightarrow> (st\<lparr>scriptProcessorRef := None\<rparr>, fx @ [ProcessorDisconnect node])
                      | None \<Rightarrow> (st, fx));
          (st, fx) = (case inputAudioContextRef st of
                        Some ctx \<Rightarrow> (st\<lparr>inputAudioContextRef := None\<rparr>, fx @ [ContextClose ctx])
                      | None \<Rightarrow> (st, fx));
          (st, fx) = (case outputAudioContextRef st of
                        Some ctx \<Rightarrow> (st\<lparr>sourcesRef := [], outputAudioContextRef := None\<rparr>,
                                     fx @ map SourceStop (sourcesRef st) @ [ContextClose ctx])
                      | None \<Rightarrow> (st, fx))
      in (st\<lparr>isSessionActive := False,
              currentInputTranscriptionRef := [],
              currentOutputTranscriptionRef := [],
              transcript := map (\<lambda>m. m\<lparr>isFinal := True\<rparr>) (transcript st)\<rparr>, fx))"

text \<open>
  \<open>startSession\<close>: the two contexts are created, the cursor \<open>nextStartTimeRef\<close> is set to 0,
  and the connection either gives the session or fails, which the \<open>catch\<close> reports.
  The handles of the new objects and the outcome of the connection are the arguments.
\<close>

definition startSession :: "handle \<Rightarrow> handle \<Rightarrow> js_error + handle \<Rightarrow> studio \<Rightarrow> studio" where
  "startSession inputCtx outputCtx connectResult st =
     (let st = st\<lparr>sessionError := None, isSessionActive := True,
                  inputAudioContextRef := Some inputCtx,
                  outputAudioContextRef := Some outputCtx,
                  nextStartTimeRef := 0\<rparr>
      in case connectResult of
           Inr session \<Rightarrow> st\<lparr>sessionRef := Some session\<rparr>
         | Inl err \<Rightarrow> st\<lparr>sessionError := Some err, isSessionActive := False\<rparr>)"

text \<open>
  The audio part of \<open>onmessage\<close>, for a decoded buffer: \<open>currentTime\<close> is the output
  context's clock when the handler runs and \<open>s\<close> the new buffer source. Without an output
  context the handler dereferences \<open>null\<close> and throws.
\<close>

definition scheduleAudio ::
  "real \<Rightarrow> handle \<Rightarrow> audioBuffer \<Rightarrow> studio \<Rightarrow> js_error + studio \<times> effect list" where
  "scheduleAudio currentTime s audioBuffer st =
     (case outputAudioContextRef st of
        None \<Rightarrow> Inl TypeError
      | Some ctx \<Rightarrow>
          (let startTime = max currentTime (nextStartTimeRef st)
           in Inr (st\<lparr>nextStartTimeRef := startTime + duration audioBuffer,
                       sourcesRef := setAdd s (sourcesRef st)\<rparr>,
                   [SourceStart s startTime])))"

definition onended :: "handle \<Rightarrow> studio \<Rightarrow> studio" where
  "onended s st = st\<lparr>sourcesRef := setDelete s (sourcesRef st)\<rparr>"

text \<open>The handler run on a sequence of inbound buffers, in arrival order.\<close>

fun scheduleAll ::
  "studio \<Rightarrow> (real \<times> handle \<times> audioBuffer) list \<Rightarrow> js_error + studio \<times> effect list" where
  "scheduleAll st [] = Inr (st, [])"
| "scheduleAll st ((currentTime, s, audioBuffer) # rest) =
     (case scheduleAudio currentTime s audioBuffer st of
        Inl err \<Rightarrow> Inl err
      | Inr (st', fx) \<Rightarrow>
          (case scheduleAll st' rest of
             Inl err \<Rightarrow> Inl err
           | Inr (st'', fx') \<Rightarrow> Inr (st'', fx @ fx')))"

fun startTimeOf :: "effect \<Rightarrow> real" where
  "startTimeOf (SourceStart s t) = t"
| "startTimeOf _ = 0"

text \<open>
  \<open>scheduledWithin lo hi arrival e\<close>: the effect \<open>e\<close> starts the arrival's source, not before
  \<open>lo\<close> and not before its arrival, and the buffer's declared end is not after \<open>hi\<close>.
\<close>

definition scheduledWithin ::
  "real \<Rightarrow> real \<Rightarrow> real \<times> handle \<times> audioBuffer \<Rightarrow> effect \<Rightarrow> bool" where
  "scheduledWithin lo hi arrival e \<longleftrightarrow>
     (case arrival of (currentTime, s, audioBuffer) \<Rightarrow>
        e = SourceStart s (startTimeOf e) \<and> lo \<le> startTimeOf e \<and> currentTime \<le> startTimeOf e \<and>
        startTimeOf e + duration audioBuffer \<le> hi)"

text \<open>
  Playback sources are registered only while the output context is open: the scheduler
  needs the context, and \<open>stopSession\<close> clears the set when it closes the context.
\<close>

definition sourcesTracked :: "studio \<Rightarrow> bool" where
  "sourcesTracked st \<longleftrightarrow> (outputAudioContextRef st = None \<longrightarrow> sourcesRef st = [])"

text \<open>The component before any session, and a session in progress (used as examples).\<close>

definition initialStudio :: studio where
  "initialStudio =
     \<lparr>sessionRef = None, streamRef = None, scriptProcessorRef = None,
      inputAudioContextRef = None, outputAudioContextRef = None, sourcesRef = [],
      nextStartTimeRef = 0, currentInputTranscriptionRef = [], currentOutputTranscriptionRef = [],
      isSessionActive = False, transcript = [], sessionError = None\<rparr>"

definition liveStudio :: studio where
  "liveStudio =
     \<lparr>sessionRef = Some 1, streamRef = Some [2], scriptProcessorRef = Some 3,
      inputAudioContextRef = Some 4, outputAudioContextRef = Some 5, sourcesRef = [6, 7],
      nextStartTimeRef = 3, currentInputTranscriptionRef = str ''hel'',
      currentOutputTranscriptionRef = [],
      isSessionActive = True,
      transcript = [\<lparr>speaker = User, msgText = str ''hel'', isFinal = False\<rparr>],
      sessionError = None\<rparr>"

definition oneSecond :: audioBuffer where
  "oneSecond = \<lparr>frameCount = 24000, sampleRate = 24000\<rparr>"

definition halfSecond :: audioBuffer where
  "halfSecond = \<lparr>frameCount = 12000, sampleRate = 24000\<rparr>"

subsection \<open>The scheduler\<close>

lemma duration_nonneg: "0 \<le> duration b"
  by (simp add: duration_def)

lemma scheduledWithin_mono:
  "scheduledWithin lo hi a e \<Longrightarrow> lo' \<le> lo \<Longrightarrow> scheduledWithin lo' hi a e"
  by (auto simp: scheduledWithin_def)

lemma scheduleAll_invariant:
  assumes "outputAudioContextRef st = Some ctx"
  shows "\<exists>st' fx. scheduleAll st arrivals = Inr (st', fx) \<and>
           outputAudioContextRef st' = Some ctx \<and>
           nextStartTimeRef st \<le> nextStartTimeRef st' \<and>
           list_all2 (scheduledWithin (nextStartTimeRef st) (nextStartTimeRef st')) arrivals fx \<and>
           (\<forall>i j. i < j \<and> j < length arrivals \<longrightarrow>
                startTimeOf (fx ! i) + duration (snd (snd (arrivals ! i))) \<le> startTimeOf (fx ! j))"
  using assms
proof (induction arrivals arbitrary: st)
  case Nil
  then show ?case by simp
next
  case (Cons a rest)
  obtain now s b where a: "a = (now, s, b)" by (cases a) auto
  define t where "t = max now (nextStartTimeRef st)"
  define st1 where "st1 = st\<lparr>nextStartTimeRef := t + duration b, sourcesRef := setAdd s (sourcesRef st)\<rparr>"
  have step: "scheduleAudio now s b st = Inr (st1, [SourceStart s t])"
    using Cons.prems by (simp add: scheduleAudio_def st1_def t_def Let_def)
  have ctx1: "outputAudioContextRef st1 = Some ctx" using Cons.prems by (simp add: st1_def)
  have c1: "nextStartTimeRef st1 = t + duration b" by (simp add: st1_def)
  have c01: "nextStartTimeRef st \<le> nextStartTimeRef st1"
    using duration_nonneg [of b] by (simp add: c1 t_def)
  from Cons.IH [OF ctx1] obtain st' fx where
    r: "scheduleAll st1 rest = Inr (st', fx)"
       "outputAudioContextRef st' = Some ctx"
       "nextStartTimeRef st1 \<le> nextStartTimeRef st'"
       "list_all2 (scheduledWithin (nextStartTimeRef st1) (nextStartTimeRef st')) rest fx"
       "\<forall>i j. i < j \<and> j < length rest \<longrightarrow>
                startTimeOf (fx ! i) + duration (snd (snd (rest ! i))) \<le> startTimeOf (fx ! j)"
    by blast
  let ?fx = "SourceStart s t # fx"
  have run: "scheduleAll st (a # rest) = Inr (st', ?fx)"
    by (simp add: a step r(1))
  have head: "scheduledWithin (nextStartTimeRef st) (nextStartTimeRef st') a (SourceStart s t)"
    using r(3) by (simp add: scheduledWithin_def a c1 t_def)
  have tail: "list_all2 (scheduledWithin (nextStartTimeRef st) (nextStartTimeRef st')) rest fx"
    using r(4) c01 by (auto elim!: list_all2_mono intro: scheduledWithin_mono)
  have after: "t + duration b \<le> startTimeOf (fx ! k)" if "k < length rest" for k
  proof -
    have "scheduledWithin (nextStartTimeRef st1) (nextStartTimeRef st') (rest ! k) (fx ! k)"
      using r(4) that by (rule list_all2_nthD)
    then show ?thesis by (auto simp: scheduledWithin_def c1 split: prod.splits)
  qed
  have order: "startTimeOf (?fx ! i) + duration (snd (snd ((a # rest) ! i))) \<le> startTimeOf (?fx ! j)"
    if ij: "i < j" and jl: "j < length (a # rest)" for i j
  proof (cases i)
    case 0
    then obtain j' where j: "j = Suc j'" using ij by (cases j) auto
    then have "j' < length rest" using jl by simp
    from after [OF this] show ?thesis by (simp add: 0 j a)
  next
    case (Suc i')
    then obtain j' where j: "j = Suc j'" using ij by (cases j) auto
    have "i' < j' \<and> j' < length rest" using ij jl Suc j by simp
    with r(5) show ?thesis by (simp add: Suc j)
  qed
  show ?case
    using run r(2) c01 r(3) head tail order
    by (intro exI [of _ st'] exI [of _ ?fx]) (simp add: a)
qed

lemma scheduleAll_three:
  assumes "outputAudioContextRef st = Some ctx"
      and "nextStartTimeRef st \<le> ta" and "tb \<le> ta + duration ba" and "tc \<le> ta + duration ba + duration bb"
  shows "\<exists>st'. scheduleAll st [(ta, sa, ba), (tb, sb, bb), (tc, sc, bc)]
           = Inr (st', [SourceStart sa ta, SourceStart sb (ta + duration ba),
                        SourceStart sc (ta + duration ba + duration bb)])"
  using assms by (simp add: scheduleAudio_def Let_def max_def)

text \<open>
  C3. With the output context open, the scheduler starts every decoded buffer at
  \<open>max currentTime cursor\<close> and moves the cursor to that start plus the buffer's duration.
  Over any sequence of buffers handled in arrival order the cursor never decreases, every
  buffer starts at or after its arrival, and a later buffer never starts before the declared
  end of an earlier one. Three buffers \<open>ba\<close>, \<open>bb\<close>, \<open>bc\<close> arriving at \<open>ta\<close>, \<open>tb\<close>,
  \<open>tc\<close>, the first at or after the cursor and each of the others no later than the end of
  the one before, start at \<open>ta\<close>, \<open>ta + duration ba\<close> and \<open>ta + duration ba + duration bb\<close>.
\<close>

theorem playback_scheduler:
  assumes "outputAudioContextRef st = Some ctx"
  shows "(\<exists>st'. scheduleAudio now s b st = Inr (st', [SourceStart s (max now (nextStartTimeRef st))]) \<and>
              nextStartTimeRef st' = max now (nextStartTimeRef st) + duration b) \<and>
         (\<exists>st' fx. scheduleAll st arrivals = Inr (st', fx) \<and>
              nextStartTimeRef st \<le> nextStartTimeRef st' \<and>
              list_all2 (scheduledWithin (nextStartTimeRef st) (nextStartTimeRef st')) arrivals fx \<and>
              (\<forall>i j. i < j \<and> j < length arrivals \<longrightarrow>
                 startTimeOf (fx ! i) + duration (snd (snd (arrivals ! i))) \<le> startTimeOf (fx ! j))) \<and>
         (nextStartTimeRef st \<le> ta \<and> tb \<le> ta + duration ba \<and> tc \<le> ta + duration ba + duration bb \<longrightarrow>
            (\<exists>st'. scheduleAll st [(ta, sa, ba), (tb, sb, bb), (tc, sc, bc)]
               = Inr (st', [SourceStart sa ta, SourceStart sb (ta + duration ba),
                            SourceStart sc (ta + duration ba + duration bb)])))"
proof -
  have "\<exists>st'. scheduleAudio now s b st = Inr (st', [SourceStart s (max now (nextStartTimeRef st))]) \<and>
              nextStartTimeRef st' = max now (nextStartTimeRef st) + duration b"
    using assms by (simp add: scheduleAudio_def Let_def)
  moreover have "\<exists>st' fx. scheduleAll st arrivals = Inr (st', fx) \<and>
              nextStartTimeRef st \<le> nextStartTimeRef st' \<and>
              list_all2 (scheduledWithin (nextStartTimeRef st) (nextStartTimeRef st')) arrivals fx \<and>
              (\<forall>i j. i < j \<and> j < length arrivals \<longrightarrow>
                 startTimeOf (fx ! i) + duration (snd (snd (arrivals ! i))) \<le> startTimeOf (fx ! j))"
    using scheduleAll_invariant [OF assms, of arrivals] by blast
  moreover have "nextStartTimeRef st \<le> ta \<and> tb \<le> ta + duration ba \<and> tc \<le> ta + duration ba + duration bb \<longrightarrow>
            (\<exists>st'. scheduleAll st [(ta, sa, ba), (tb, sb, bb), (tc, sc, bc)]
               = Inr (st', [SourceStart sa ta, SourceStart sb (ta + duration ba),
                            SourceStart sc (ta + duration ba + duration bb)]))"
    using scheduleAll_three [OF assms] by blast
  ultimately show ?thesis by blast
qed

theorem playback_scheduler_witness:
  "outputAudioContextRef (startSession 4 5 (Inr 1) initialStudio) = Some 5 \<and>
   nextStartTimeRef (startSession 4 5 (Inr 1) initialStudio) \<le> 1/4 \<and>
   (1::real) \<le> 1/4 + duration oneSecond \<and>
   (3/2::real) \<le> 1/4 + duration oneSecond + duration halfSecond \<and>
   (\<exists>st'. scheduleAll (startSession 4 5 (Inr 1) initialStudio)
             [(1/4, 6, oneSecond), (1, 7, halfSecond), (3/2, 8, oneSecond)]
      = Inr (st', [SourceStart 6 (1/4), SourceStart 7 (5/4), SourceStart 8 (7/4)]))"
  using playback_scheduler
    [where st = "startSession 4 5 (Inr 1) initialStudio" and ctx = 5
       and ta = "1/4" and tb = 1 and tc = "3/2"
       and ba = oneSecond and bb = halfSecond and bc = oneSecond and sa = 6 and sb = 7 and sc = 8]
  by (simp add: startSession_def initialStudio_def Let_def duration_def oneSecond_def
        halfSecond_def scheduleAudio_def setAdd_def)

subsection \<open>Teardown\<close>

lemma sourcesTracked_initial: "sourcesTracked initialStudio"
  by (simp add: sourcesTracked_def initialStudio_def)

lemma sourcesTracked_startSession: "sourcesTracked (startSession i out c st)"
  by (simp add: sourcesTracked_def startSession_def Let_def split: sum.splits)

lemma sourcesTracked_scheduleAudio:
  "sourcesTracked st \<Longrightarrow> scheduleAudio now s b st = Inr (st', fx) \<Longrightarrow> sourcesTracked st'"
  by (auto simp: sourcesTracked_def scheduleAudio_def Let_def split: option.splits)

lemma sourcesTracked_onended: "sourcesTracked st \<Longrightarrow> sourcesTracked (onended s st)"
  by (simp add: sourcesTracked_def onended_def setDelete_def)

lemma stopSession_state:
  "fst (stopSession st) =
     st\<lparr>sessionRef := None, streamRef := None, scriptProcessorRef := None,
        inputAudioContextRef := None, outputAudioContextRef := None,
        sourcesRef := (if outputAudioContextRef st = None then sourcesRef st else []),
        isSessionActive := False,
        currentInputTranscriptionRef := [],
        currentOutputTranscriptionRef := [],
        transcript := map (\<lambda>m. m\<lparr>isFinal := True\<rparr>) (transcript st)\<rparr>"
  by (simp add: stopSession_def Let_def split: option.splits)

lemma stopSession_effects:
  "snd (stopSession st) =
     (case sessionRef st of Some session \<Rightarrow> [SessionClose session] | None \<Rightarrow> []) @
     (case streamRef st of Some tracks \<Rightarrow> map TrackStop tracks | None \<Rightarrow> []) @
     (case scriptProcessorRef st of Some node \<Rightarrow> [ProcessorDisconnect node] | None \<Rightarrow> []) @
     (case inputAudioContextRef st of Some ctx \<Rightarrow> [ContextClose ctx] | None \<Rightarrow> []) @
     (case outputAudioContextRef st of
        Some ctx \<Rightarrow> map SourceStop (sourcesRef st) @ [ContextClose ctx] | None \<Rightarrow> [])"
  by (simp add: stopSession_def Let_def split: option.splits)

lemma stopSession_refs:
  "sessionRef (fst (stopSession st)) = None \<and> streamRef (fst (stopSession st)) = None \<and>
   scriptProcessorRef (fst (stopSession st)) = None \<and>
   inputAudioContextRef (fst (stopSession st)) = None \<and>
   outputAudioContextRef (fst (stopSession st)) = None \<and>
   \<not> isSessionActive (fst (stopSession st)) \<and>
   nextStartTimeRef (fst (stopSession st)) = nextStartTimeRef st"
  by (simp add: stopSession_state)

lemma stopSession_sources:
  "sourcesRef (fst (stopSession st)) = (if outputAudioContextRef st = None then sourcesRef st else [])"
  by (simp add: stopSession_state)

lemma sourcesTracked_stopSession: "sourcesTracked st \<Longrightarrow> sourcesTracked (fst (stopSession st))"
  by (simp add: sourcesTracked_def stopSession_state)

lemma stopSession_closed:
  assumes "sessionRef st = None" "streamRef st = None" "scriptProcessorRef st = None"
    "inputAudioContextRef st = None" "outputAudioContextRef st = None"
  shows "stopSession st =
    (st\<lparr>isSessionActive := False, currentInputTranscriptionRef := [],
        currentOutputTranscriptionRef := [],
        transcript := map (\<lambda>m. m\<lparr>isFinal := True\<rparr>) (transcript st)\<rparr>, [])"
  using assms by (simp add: stopSession_def)

lemma stopSession_twice: "stopSession (fst (stopSession st)) = (fst (stopSession st), [])"
proof -
  let ?st = "fst (stopSession st)"
  have "stopSession ?st =
    (?st\<lparr>isSessionActive := False, currentInputTranscriptionRef := [],
         currentOutputTranscriptionRef := [],
         transcript := map (\<lambda>m. m\<lparr>isFinal := True\<rparr>) (transcript ?st)\<rparr>, [])"
    using stopSession_refs [of st] by (intro stopSession_closed) simp_all
  also have "?st\<lparr>isSessionActive := False, currentInputTranscriptionRef := [],
         currentOutputTranscriptionRef := [],
         transcript := map (\<lambda>m. m\<lparr>isFinal := True\<rparr>) (transcript ?st)\<rparr> = ?st"
    by (simp add: stopSession_state comp_def)
  finally show ?thesis .
qed
text \<open>
  C9 (amended). From every state in which sources are registered only while the output
  context is open, \<open>stopSession\<close> returns (the model has no failing branch): it clears the
  five refs, closes the session, stops every microphone track, disconnects the capture
  processor, closes the input context, stops every registered playback source and empties
  the set, and closes the output context. It leaves the playback cursor
  \<open>nextStartTimeRef\<close> as it was: the cursor is set to 0 by the next \<open>startSession\<close>.
  A second \<open>stopSession\<close> performs no effect and changes nothing.
\<close>

theorem stopSession_teardown:
  assumes "sourcesTracked st"
  shows "sessionRef (fst (stopSession st)) = None \<and> streamRef (fst (stopSession st)) = None \<and>
         scriptProcessorRef (fst (stopSession st)) = None \<and>
         inputAudioContextRef (fst (stopSession st)) = None \<and>
         outputAudioContextRef (fst (stopSession st)) = None \<and>
         sourcesRef (fst (stopSession st)) = [] \<and>
         snd (stopSession st) =
           (case sessionRef st of Some session \<Rightarrow> [SessionClose session] | None \<Rightarrow> []) @
           (case streamRef st of Some tracks \<Rightarrow> map TrackStop tracks | None \<Rightarrow> []) @
           (case scriptProcessorRef st of Some node \<Rightarrow> [ProcessorDisconnect node] | None \<Rightarrow> []) @
           (case inputAudioContextRef st of Some ctx \<Rightarrow> [ContextClose ctx] | None \<Rightarrow> []) @
           (case outputAudioContextRef st of
              Some ctx \<Rightarrow> map SourceStop (sourcesRef st) @ [ContextClose ctx] | None \<Rightarrow> []) \<and>
         SourceStop ` set (sourcesRef st) \<subseteq> set (snd (stopSession st)) \<and>
         nextStartTimeRef (fst (stopSession st)) = nextStartTimeRef st \<and>
         stopSession (fst (stopSession st)) = (fst (stopSession st), []) \<and>
         nextStartTimeRef (startSession inputCtx outputCtx connectResult (fst (stopSession st))) = 0"
proof -
  have "SourceStop ` set (sourcesRef st) \<subseteq> set (snd (stopSession st))"
    using assms by (auto simp: stopSession_effects sourcesTracked_def split: option.splits)
  moreover have "sourcesRef (fst (stopSession st)) = []"
    using assms by (auto simp: stopSession_sources sourcesTracked_def)
  moreover have "nextStartTimeRef (startSession inputCtx outputCtx connectResult (fst (stopSession st))) = 0"
    by (simp add: startSession_def Let_def split: sum.splits)
  ultimately show ?thesis
    using stopSession_refs [of st] stopSession_effects [of st] stopSession_twice [of st] by simp
qed

theorem stopSession_teardown_witness:
  "sourcesTracked liveStudio \<and>
   stopSession liveStudio =
     (\<lparr>sessionRef = None, streamRef = None, scriptProcessorRef = None,
       inputAudioContextRef = None, outputAudioContextRef = None, sourcesRef = [],
       nextStartTimeRef = 3, currentInputTranscriptionRef = [],
       currentOutputTranscriptionRef = [],
       isSessionActive = False,
       transcript = [\<lparr>speaker = User, msgText = str ''hel'', isFinal = True\<rparr>],
       sessionError = None\<rparr>,
      [SessionClose 1, TrackStop 2, ProcessorDisconnect 3, ContextClose 4,
       SourceStop 6, SourceStop 7, ContextClose 5])"
  using stopSession_teardown [of liveStudio]
  by (simp add: sourcesTracked_def liveStudio_def stopSession_def Let_def)

text \<open>
  C9 as stated fails on the cursor: after \<open>stopSession\<close> on a session whose cursor is at 3
  seconds the cursor is still 3, not reset.
\<close>

theorem stopSession_resets_cursor_counterexample:
  "nextStartTimeRef liveStudio = 3 \<and> nextStartTimeRef (fst (stopSession liveStudio)) = 3"
  by (simp add: liveStudio_def stopSession_def Let_def)

end
